theory Spec2Isabelle
  imports Complex_Main
begin

section \<open>Python values used by the two converters\<close>

text \<open>
  The converters \<^verbatim>\<open>image_to_gcode.py\<close> and \<^verbatim>\<open>svg_to_gcode.py\<close> compute with Python
  floats and write text. Floats are modelled without rounding: a finite float is a real
  number, and the three non-finite values that the source itself introduces
  (\<^verbatim>\<open>float("inf")\<close>, \<^verbatim>\<open>float("-inf")\<close>) or that arithmetic on them produces (nan)
  are separate constructors. Signed zeros are not distinguished. Exceptions are values
  of \<open>py_error\<close>. The numbers that reach the converters from outside (the coordinates of
  the scene, the height of the document, the target size and the placement) are real
  numbers here: a run in which one of them is \<open>inf\<close> or \<open>nan\<close> is not among the runs
  of the model, and every statement below about written coordinates is a statement about
  the runs with finite inputs.
\<close>

datatype py_error = ValueError | NameError | ZeroDivisionError

datatype pyfloat = Fin real | PInf | NInf | NaN

fun pf_neg :: "pyfloat \<Rightarrow> pyfloat" where
  "pf_neg (Fin a) = Fin (- a)"
| "pf_neg PInf = NInf"
| "pf_neg NInf = PInf"
| "pf_neg NaN = NaN"

fun pf_add :: "pyfloat \<Rightarrow> pyfloat \<Rightarrow> pyfloat" where
  "pf_add (Fin a) (Fin b) = Fin (a + b)"
| "pf_add (Fin a) PInf = PInf"
| "pf_add (Fin a) NInf = NInf"
| "pf_add PInf (Fin b) = PInf"
| "pf_add NInf (Fin b) = NInf"
| "pf_add PInf PInf = PInf"
| "pf_add NInf NInf = NInf"
| "pf_add PInf NInf = NaN"
| "pf_add NInf PInf = NaN"
| "pf_add NaN b = NaN"
| "pf_add a NaN = NaN"

definition pf_sub :: "pyfloat \<Rightarrow> pyfloat \<Rightarrow> pyfloat" where
  "pf_sub a b = pf_add a (pf_neg b)"

text \<open>The infinity with the sign of a non-zero real.\<close>

definition pf_inf_of_sign :: "real \<Rightarrow> pyfloat" where
  "pf_inf_of_sign a = (if a = 0 then NaN else if 0 < a then PInf else NInf)"

fun pf_mul :: "pyfloat \<Rightarrow> pyfloat \<Rightarrow> pyfloat" where
  "pf_mul (Fin a) (Fin b) = Fin (a * b)"
| "pf_mul (Fin a) PInf = pf_inf_of_sign a"
| "pf_mul (Fin a) NInf = pf_inf_of_sign (- a)"
| "pf_mul PInf (Fin b) = pf_inf_of_sign b"
| "pf_mul NInf (Fin b) = pf_inf_of_sign (- b)"
| "pf_mul PInf PInf = PInf"
| "pf_mul NInf NInf = PInf"
| "pf_mul PInf NInf = NInf"
| "pf_mul NInf PInf = NInf"
| "pf_mul NaN b = NaN"
| "pf_mul a NaN = NaN"

text \<open>
  Division by a divisor that is not zero. Python raises \<^verbatim>\<open>ZeroDivisionError\<close> for every
  float division by zero; \<open>py_truediv\<close> below adds that case.
\<close>

fun pf_divide :: "pyfloat \<Rightarrow> pyfloat \<Rightarrow> pyfloat" where
  "pf_divide (Fin a) (Fin b) = Fin (a / b)"
| "pf_divide (Fin a) PInf = Fin 0"
| "pf_divide (Fin a) NInf = Fin 0"
| "pf_divide PInf (Fin b) = (if 0 < b then PInf else NInf)"
| "pf_divide NInf (Fin b) = (if 0 < b then NInf else PInf)"
| "pf_divide PInf PInf = NaN"
| "pf_divide NInf NInf = NaN"
| "pf_divide PInf NInf = NaN"
| "pf_divide NInf PInf = NaN"
| "pf_divide NaN b = NaN"
| "pf_divide a NaN = NaN"

definition py_truediv :: "pyfloat \<Rightarrow> pyfloat \<Rightarrow> py_error + pyfloat" where
  "py_truediv a b = (if b = Fin 0 then Inl ZeroDivisionError else Inr (pf_divide a b))"

fun pf_less :: "pyfloat \<Rightarrow> pyfloat \<Rightarrow> bool" where
  "pf_less (Fin a) (Fin b) = (a < b)"
| "pf_less (Fin a) PInf = True"
| "pf_less (Fin a) NInf = False"
| "pf_less PInf b = False"
| "pf_less NInf (Fin b) = True"
| "pf_less NInf PInf = True"
| "pf_less NInf NInf = False"
| "pf_less a NaN = False"
| "pf_less NaN b = False"

text \<open>
  Python's \<^verbatim>\<open>min(a, b, c)\<close> and \<^verbatim>\<open>max(a, b, c)\<close> keep the first argument and replace it
  by a later one that compares strictly smaller (larger).
\<close>

definition py_min2 :: "pyfloat \<Rightarrow> pyfloat \<Rightarrow> pyfloat" where
  "py_min2 a b = (if pf_less b a then b else a)"

definition py_max2 :: "pyfloat \<Rightarrow> pyfloat \<Rightarrow> pyfloat" where
  "py_max2 a b = (if pf_less a b then b else a)"

definition py_min3 :: "pyfloat \<Rightarrow> pyfloat \<Rightarrow> pyfloat \<Rightarrow> pyfloat" where
  "py_min3 a b c = py_min2 (py_min2 a b) c"

definition py_max3 :: "pyfloat \<Rightarrow> pyfloat \<Rightarrow> pyfloat \<Rightarrow> pyfloat" where
  "py_max3 a b c = py_max2 (py_max2 a b) c"

subsection \<open>Text\<close>

text \<open>
  The written file is a string. \<open>eol s\<close> is the text \<open>s\<close> followed by the newline
  character, as in \<^verbatim>\<open>f.write("...\n")\<close>.
\<close>

definition eol :: "string \<Rightarrow> string" where
  "eol s = s @ [CHR 0x0A]"

definition digit_char :: "nat \<Rightarrow> char" where
  "digit_char d = ''0123456789'' ! d"

function show_nat :: "nat \<Rightarrow> string" where
  "show_nat n = (if n < 10 then [digit_char n] else show_nat (n div 10) @ [digit_char (n mod 10)])"
  by pat_completeness auto
termination
  by (relation "measure (\<lambda>n. n)") auto

declare show_nat.simps [simp del]

text \<open>\<^verbatim>\<open>f"{power}"\<close> for a Python int.\<close>

definition show_int :: "int \<Rightarrow> string" where
  "show_int i = (if i < 0 then ''-'' @ show_nat (nat (- i)) else show_nat (nat i))"

text \<open>
  \<^verbatim>\<open>f"{x:.3f}"\<close>: the value rounded to the nearest multiple of one thousandth, ties to
  the even one, written with all digits of the integer part, a point and three digits;
  the sign is kept when the rounded value is zero.
\<close>

definition round_half_even :: "real \<Rightarrow> int" where
  "round_half_even y =
     (let f = \<lfloor>y\<rfloor>; d = y - of_int f
      in if d < 1 / 2 then f else if 1 / 2 < d then f + 1 else if even f then f else f + 1)"

definition pad3 :: "nat \<Rightarrow> string" where
  "pad3 m = [digit_char (m div 100), digit_char ((m div 10) mod 10), digit_char (m mod 10)]"

definition fmt3 :: "real \<Rightarrow> string" where
  "fmt3 x =
     (let n = nat (round_half_even (\<bar>x\<bar> * 1000))
      in (if x < 0 then ''-'' else '''') @ show_nat (n div 1000) @ ''.'' @ pad3 (n mod 1000))"

definition fmt3f :: "pyfloat \<Rightarrow> string" where
  "fmt3f v = (case v of Fin x \<Rightarrow> fmt3 x | PInf \<Rightarrow> ''inf'' | NInf \<Rightarrow> ''-inf'' | NaN \<Rightarrow> ''nan'')"

section \<open>The raster converter\<close>

text \<open>
  \<^verbatim>\<open>image_to_gcode.py\<close>. A contour is the list of its points; OpenCV's integer pixel
  coordinates are among the reals. Laser power (\<open>pwr\<close> below, \<open>power\<close> being a constant of
  HOL) and feed rate are Python ints
  (\<^verbatim>\<open>type=int\<close> on the command line).
\<close>

type_synonym point = "real \<times> real"

type_synonym contour = "point list"

text \<open>
  The two assignments \<^verbatim>\<open>x = (x * scale_factor) + offset_x\<close> and
  \<^verbatim>\<open>y = (y * scale_factor) + offset_y\<close> of \<^verbatim>\<open>generate_gcode\<close>.
\<close>

definition contour_xy :: "real \<Rightarrow> real \<Rightarrow> real \<Rightarrow> point \<Rightarrow> point" where
  "contour_xy scale_factor offset_x offset_y p =
     (fst p * scale_factor + offset_x, snd p * scale_factor + offset_y)"

text \<open>
  The inner loop \<^verbatim>\<open>for i, point in enumerate(contour)\<close>: \<open>f\<close> is what has been written
  to the file so far, \<open>i\<close> the index of the next point.
\<close>

fun write_contour ::
  "string \<Rightarrow> nat \<Rightarrow> contour \<Rightarrow> int \<Rightarrow> int \<Rightarrow> real \<Rightarrow> real \<Rightarrow> real \<Rightarrow> string" where
  "write_contour f i [] pwr feed_rate scale_factor offset_x offset_y = f"
| "write_contour f i (p # rest) pwr feed_rate scale_factor offset_x offset_y =
     (let (x, y) = contour_xy scale_factor offset_x offset_y p;
          f' = (if i = 0
                then f @ eol (''G0 X'' @ fmt3 x @ '' Y'' @ fmt3 y) @ eol (''M3 S'' @ show_int pwr)
                else f @ eol (''G1 X'' @ fmt3 x @ '' Y'' @ fmt3 y @ '' F'' @ show_int feed_rate))
      in write_contour f' (Suc i) rest pwr feed_rate scale_factor offset_x offset_y)"

text \<open>The outer loop \<^verbatim>\<open>for contour in contours\<close>, with the \<^verbatim>\<open>M5\<close> written after each contour.\<close>

fun write_contours ::
  "string \<Rightarrow> contour list \<Rightarrow> int \<Rightarrow> int \<Rightarrow> real \<Rightarrow> real \<Rightarrow> real \<Rightarrow> string" where
  "write_contours f [] pwr feed_rate scale_factor offset_x offset_y = f"
| "write_contours f (contour # rest) pwr feed_rate scale_factor offset_x offset_y =
     write_contours
       (write_contour f 0 contour pwr feed_rate scale_factor offset_x offset_y
          @ eol ''M5 ; Turn off the laser'')
       rest pwr feed_rate scale_factor offset_x offset_y"

text \<open>\<^verbatim>\<open>generate_gcode\<close>: the content of the file at \<^verbatim>\<open>output_path\<close> when it returns.\<close>

definition generate_gcode ::
  "contour list \<Rightarrow> int \<Rightarrow> int \<Rightarrow> real \<Rightarrow> real \<Rightarrow> real \<Rightarrow> string" where
  "generate_gcode contours pwr feed_rate scale_factor offset_x offset_y =
     write_contours
       (eol ''G21 ; Set units to millimeters'' @ eol ''G90 ; Absolute positioning''
          @ eol ''M5 ; Ensure the laser is off to start'')
       contours pwr feed_rate scale_factor offset_x offset_y
     @ eol ''G0 X0 Y0''"

text \<open>
  \<^verbatim>\<open>image_to_gcode\<close> after the calls to OpenCV: \<open>shape\<close> is \<^verbatim>\<open>img.shape\<close> (rows, columns,
  channels) and \<open>contours\<close> is what \<^verbatim>\<open>cv2.findContours\<close> returned. The test
  \<^verbatim>\<open>if longest_side:\<close> is false for \<^verbatim>\<open>None\<close> and for zero; \<^verbatim>\<open>if center_offset:\<close> is false
  for \<^verbatim>\<open>None\<close> only (a pair is never empty).
\<close>

definition image_scale_factor :: "nat \<times> nat \<times> nat \<Rightarrow> real option \<Rightarrow> py_error + real" where
  "image_scale_factor shape longest_side =
     (case longest_side of
        None \<Rightarrow> Inr 1
      | Some t \<Rightarrow>
          if t = 0 then Inr 1
          else (let current_longest_side_pixels =
                      max (fst shape) (max (fst (snd shape)) (snd (snd shape)))
                in if current_longest_side_pixels = 0 then Inl ZeroDivisionError
                   else Inr (t / real current_longest_side_pixels)))"

definition image_offsets :: "(real \<times> real) option \<Rightarrow> real \<times> real" where
  "image_offsets center_offset =
     (case center_offset of None \<Rightarrow> (0, 0) | Some (offset_x, offset_y) \<Rightarrow> (offset_x, offset_y))"

definition image_to_gcode ::
  "nat \<times> nat \<times> nat \<Rightarrow> contour list \<Rightarrow> int \<Rightarrow> int \<Rightarrow> real option \<Rightarrow> (real \<times> real) option
     \<Rightarrow> py_error + string" where
  "image_to_gcode shape contours pwr feed_rate longest_side center_offset =
     (case image_scale_factor shape longest_side of
        Inl e \<Rightarrow> Inl e
      | Inr scale_factor \<Rightarrow>
          (let (offset_x, offset_y) = image_offsets center_offset
           in Inr (generate_gcode contours pwr feed_rate scale_factor offset_x offset_y)))"

text \<open>
  \<^verbatim>\<open>binary = cv2.flip(binary, 0)\<close> flips the image around the horizontal axis: the rows
  of the array in reverse order.
\<close>

definition cv2_flip0 :: "'a list \<Rightarrow> 'a list" where
  "cv2_flip0 rows = rev rows"

text \<open>
  The three statements of \<^verbatim>\<open>image_to_gcode\<close> from \<^verbatim>\<open># flip for cutting\<close> to
  \<^verbatim>\<open>cv2.findContours\<close>, which give the contours: \<open>binary\<close> is the image after the
  threshold, a list of rows of pixels, and \<^verbatim>\<open>cv2.GaussianBlur\<close> and \<^verbatim>\<open>cv2.findContours\<close>
  with the arguments of the source are the two parameters. \<open>image_to_gcode_binary\<close> is
  the conversion from there on.
\<close>

definition image_contours ::
  "('p list list \<Rightarrow> 'p list list) \<Rightarrow> ('p list list \<Rightarrow> contour list) \<Rightarrow> 'p list list
     \<Rightarrow> contour list" where
  "image_contours gaussian_blur find_contours binary =
     find_contours (gaussian_blur (cv2_flip0 binary))"

definition image_to_gcode_binary ::
  "nat \<times> nat \<times> nat \<Rightarrow> ('p list list \<Rightarrow> 'p list list) \<Rightarrow> ('p list list \<Rightarrow> contour list)
     \<Rightarrow> 'p list list \<Rightarrow> int \<Rightarrow> int \<Rightarrow> real option \<Rightarrow> (real \<times> real) option
     \<Rightarrow> py_error + string" where
  "image_to_gcode_binary shape gaussian_blur find_contours binary pwr feed_rate longest_side
       center_offset =
     image_to_gcode shape (image_contours gaussian_blur find_contours binary) pwr feed_rate
       longest_side center_offset"

section \<open>The vector converter\<close>

text \<open>
  \<^verbatim>\<open>svg_to_gcode.py\<close>. A segment of \<^verbatim>\<open>svgpathtools\<close> is an object with the complex
  attributes \<^verbatim>\<open>start\<close> and \<^verbatim>\<open>end\<close>; what else it holds (the control points of a curve,
  the radii of an arc) is the record's extension. A path is the list of its segments,
  and \<^verbatim>\<open>svg2paths2\<close> returns distinct segment objects, so lists of values model them.
  \<^verbatim>\<open>svg_attributes\<close> is a dictionary from strings to strings.
\<close>

record segment =
  seg_start :: complex
  seg_end :: complex

type_synonym 'a path = "'a segment_scheme list"

text \<open>
  \<^verbatim>\<open>str.split()\<close>: the maximal runs of characters that are not white space. A character
  is its code point, below 256; the white space of Python among these is 9 to 13, 28 to
  32, 133 and 160.
\<close>

definition is_space :: "char \<Rightarrow> bool" where
  "is_space c =
     (let n = (of_char c :: nat)
      in (9 \<le> n \<and> n \<le> 13) \<or> (28 \<le> n \<and> n \<le> 32) \<or> n = 133 \<or> n = 160)"

fun split_ws_acc :: "string \<Rightarrow> string \<Rightarrow> string list" where
  "split_ws_acc w [] = (if w = [] then [] else [w])"
| "split_ws_acc w (c # cs) =
     (if is_space c then (if w = [] then split_ws_acc [] cs else w # split_ws_acc [] cs)
      else split_ws_acc (w @ [c]) cs)"

definition split_ws :: "string \<Rightarrow> string list" where
  "split_ws s = split_ws_acc [] s"

text \<open>
  The first statement of \<^verbatim>\<open>calculate_scaling_factor_and_transform\<close>. \<open>float_of\<close> is
  Python's \<^verbatim>\<open>float\<close> on a string, \<open>None\<close> where it raises \<^verbatim>\<open>ValueError\<close>, for the
  strings that it reads as finite numbers (a view box whose height reads as \<open>inf\<close> or
  \<open>nan\<close> is one of the inputs left out, as said at the start). Unpacking
  \<^verbatim>\<open>map(float, ...)\<close> into four names raises \<^verbatim>\<open>ValueError\<close> unless there are exactly four
  items. The \<^verbatim>\<open>elif\<close> branch reads the name \<^verbatim>\<open>s_attr\<close>, which the module nowhere defines.
\<close>

definition svg_height_of :: "(string \<Rightarrow> real option) \<Rightarrow> (string \<rightharpoonup> string) \<Rightarrow> py_error + real" where
  "svg_height_of float_of svg_attributes =
     (case svg_attributes ''viewBox'' of
        Some vb \<Rightarrow>
          (case those (map float_of (split_ws vb)) of
             Some [_, _, _, svg_height] \<Rightarrow> Inr svg_height
           | _ \<Rightarrow> Inl ValueError)
      | None \<Rightarrow>
          (case svg_attributes ''height'' of
             Some h \<Rightarrow> Inl NameError
           | None \<Rightarrow> Inl ValueError))"

text \<open>The body of the loop that scans the end points, and the two nested loops.\<close>

definition scan_line ::
  "'a segment_scheme \<Rightarrow> pyfloat \<times> pyfloat \<times> pyfloat \<times> pyfloat
     \<Rightarrow> pyfloat \<times> pyfloat \<times> pyfloat \<times> pyfloat" where
  "scan_line line bb =
     (case bb of (min_x, min_y, max_x, max_y) \<Rightarrow>
        (py_min3 min_x (Fin (Re (seg_start line))) (Fin (Re (seg_end line))),
         py_min3 min_y (Fin (Im (seg_start line))) (Fin (Im (seg_end line))),
         py_max3 max_x (Fin (Re (seg_start line))) (Fin (Re (seg_end line))),
         py_max3 max_y (Fin (Im (seg_start line))) (Fin (Im (seg_end line)))))"

definition scan_paths ::
  "'a path list \<Rightarrow> pyfloat \<times> pyfloat \<times> pyfloat \<times> pyfloat" where
  "scan_paths paths = fold (\<lambda>path bb. fold scan_line path bb) paths (PInf, PInf, NInf, NInf)"

text \<open>The body of the loop under \<^verbatim>\<open># Flip vertically\<close>, and the loops.\<close>

definition flip_line :: "real \<Rightarrow> 'a segment_scheme \<Rightarrow> 'a segment_scheme" where
  "flip_line svg_height line =
     line\<lparr>seg_start := Complex (Re (seg_start line)) (svg_height - Im (seg_start line)),
          seg_end := Complex (Re (seg_end line)) (svg_height - Im (seg_end line))\<rparr>"

definition flip_paths :: "real \<Rightarrow> 'a path list \<Rightarrow> 'a path list" where
  "flip_paths svg_height paths = map (map (flip_line svg_height)) paths"

text \<open>
  \<^verbatim>\<open>calculate_scaling_factor_and_transform\<close>. The first component of the result is the
  argument \<^verbatim>\<open>paths\<close> as the call leaves it (the flip assigns to the segments in place,
  before the division that can raise); the second is the exception raised or the
  returned triple \<^verbatim>\<open>(scale_factor, min_x, svg_height)\<close>.
\<close>

definition calculate_scaling_factor_and_transform ::
  "(string \<Rightarrow> real option) \<Rightarrow> 'a path list \<Rightarrow> (string \<rightharpoonup> string) \<Rightarrow> real option
     \<Rightarrow> 'a path list \<times> (py_error + pyfloat \<times> pyfloat \<times> real)" where
  "calculate_scaling_factor_and_transform float_of paths svg_attributes target_longest_side =
     (case svg_height_of float_of svg_attributes of
        Inl e \<Rightarrow> (paths, Inl e)
      | Inr svg_height \<Rightarrow>
          (case scan_paths paths of (min_x, min_y, max_x, max_y) \<Rightarrow>
             (let paths' = flip_paths svg_height paths;
                  current_longest_side = py_max2 (pf_sub max_x min_x) (pf_sub max_y min_y)
              in case target_longest_side of
                   None \<Rightarrow> (paths', Inr (Fin 1, min_x, svg_height))
                 | Some t \<Rightarrow>
                     (case py_truediv (Fin t) current_longest_side of
                        Inl e \<Rightarrow> (paths', Inl e)
                      | Inr scale_factor \<Rightarrow> (paths', Inr (scale_factor, min_x, svg_height))))))"

text \<open>
  The four coordinates that \<^verbatim>\<open>path_to_gcode\<close> computes for a segment:
  \<^verbatim>\<open>(start_x, start_y, end_x, end_y)\<close>.
\<close>

definition svg_x :: "pyfloat \<Rightarrow> pyfloat \<Rightarrow> pyfloat \<Rightarrow> real \<Rightarrow> pyfloat" where
  "svg_x scale_factor min_x offset_x x = pf_add (pf_mul (pf_sub (Fin x) min_x) scale_factor) offset_x"

definition svg_y :: "pyfloat \<Rightarrow> pyfloat \<Rightarrow> real \<Rightarrow> pyfloat" where
  "svg_y scale_factor offset_y y = pf_add (pf_mul (Fin y) scale_factor) offset_y"

text \<open>
  \<^verbatim>\<open>path_to_gcode\<close>: the loop over the segments of a path, \<open>gcode\<close> being the string built
  so far.
\<close>

fun path_to_gcode_loop ::
  "string \<Rightarrow> 'a path \<Rightarrow> pyfloat \<Rightarrow> pyfloat \<Rightarrow> pyfloat \<Rightarrow> pyfloat \<Rightarrow> int \<Rightarrow> int \<Rightarrow> string" where
  "path_to_gcode_loop gcode [] scale_factor min_x offset_x offset_y feed_rate pwr = gcode"
| "path_to_gcode_loop gcode (segment # rest) scale_factor min_x offset_x offset_y feed_rate pwr =
     (let start_x = svg_x scale_factor min_x offset_x (Re (seg_start segment));
          start_y = svg_y scale_factor offset_y (Im (seg_start segment));
          end_x = svg_x scale_factor min_x offset_x (Re (seg_end segment));
          end_y = svg_y scale_factor offset_y (Im (seg_end segment));
          gcode1 = gcode @ eol (''G0 X'' @ fmt3f start_x @ '' Y'' @ fmt3f start_y);
          gcode2 = gcode1 @ eol (''M3 S'' @ show_int pwr);
          gcode3 = gcode2 @ eol (''G1 X'' @ fmt3f end_x @ '' Y'' @ fmt3f end_y @ '' F'' @ show_int feed_rate);
          gcode4 = gcode3 @ eol ''M5''
      in path_to_gcode_loop gcode4 rest scale_factor min_x offset_x offset_y feed_rate pwr)"

definition path_to_gcode ::
  "'a path \<Rightarrow> pyfloat \<Rightarrow> pyfloat \<Rightarrow> pyfloat \<Rightarrow> pyfloat \<Rightarrow> int \<Rightarrow> int \<Rightarrow> string" where
  "path_to_gcode path scale_factor min_x offset_x offset_y feed_rate pwr =
     path_to_gcode_loop [] path scale_factor min_x offset_x offset_y feed_rate pwr"

text \<open>The loop of \<^verbatim>\<open>svg_to_gcode\<close> that writes one string per path to the file \<open>f\<close>.\<close>

fun write_paths ::
  "string \<Rightarrow> 'a path list \<Rightarrow> pyfloat \<Rightarrow> pyfloat \<Rightarrow> pyfloat \<Rightarrow> pyfloat \<Rightarrow> int \<Rightarrow> int \<Rightarrow> string" where
  "write_paths f [] scale_factor min_x offset_x offset_y feed_rate pwr = f"
| "write_paths f (path # rest) scale_factor min_x offset_x offset_y feed_rate pwr =
     write_paths (f @ path_to_gcode path scale_factor min_x offset_x offset_y feed_rate pwr)
       rest scale_factor min_x offset_x offset_y feed_rate pwr"

text \<open>
  The offset that \<^verbatim>\<open>svg_to_gcode\<close> computes from the requested point and the returned
  triple (the lines from \<^verbatim>\<open># Calculate the center of the scaled bounding box\<close> to
  \<^verbatim>\<open># Adjusting the offset\<close>). The divisor 2 is not zero.
\<close>

definition svg_center :: "pyfloat \<Rightarrow> pyfloat \<Rightarrow> real \<Rightarrow> pyfloat \<times> pyfloat" where
  "svg_center scale_factor min_x svg_height =
     (let scaled_width = pf_mul (pf_sub (Fin svg_height) min_x) scale_factor;
          scaled_height = pf_mul (Fin svg_height) scale_factor;
          center_x = pf_add min_x (pf_divide scaled_width (Fin 2));
          center_y = pf_divide scaled_height (Fin 2)
      in (center_x, center_y))"

definition svg_offsets ::
  "(real \<times> real) option \<Rightarrow> pyfloat \<Rightarrow> pyfloat \<Rightarrow> real \<Rightarrow> pyfloat \<times> pyfloat" where
  "svg_offsets center_offset scale_factor min_x svg_height =
     (let (center_offset_x, center_offset_y) =
            (case center_offset of Some (cx, cy) \<Rightarrow> (cx, cy) | None \<Rightarrow> (0, 0));
          (center_x, center_y) = svg_center scale_factor min_x svg_height
      in (pf_sub (Fin center_offset_x) center_x, pf_sub (Fin center_offset_y) center_y))"

text \<open>
  \<^verbatim>\<open>svg_to_gcode\<close> after the call to \<^verbatim>\<open>svg2paths2\<close>, which returned \<open>paths\<close> and
  \<open>svg_attributes\<close>: the exception raised, or the content of the output file. The file
  is opened only after the transform has been computed.
\<close>

definition svg_to_gcode ::
  "(string \<Rightarrow> real option) \<Rightarrow> 'a path list \<Rightarrow> (string \<rightharpoonup> string) \<Rightarrow> int \<Rightarrow> int
     \<Rightarrow> real option \<Rightarrow> (real \<times> real) option \<Rightarrow> py_error + string" where
  "svg_to_gcode float_of paths svg_attributes pwr feed_rate longest_side center_offset =
     (case calculate_scaling_factor_and_transform float_of paths svg_attributes longest_side of
        (paths', Inl e) \<Rightarrow> Inl e
      | (paths', Inr (scale_factor, min_x, svg_height)) \<Rightarrow>
          (let (offset_x, offset_y) = svg_offsets center_offset scale_factor min_x svg_height
           in Inr (write_paths
                     (eol ''G21 ; Set units to millimeters'' @ eol ''G90 ; Absolute positioning''
                        @ eol ''M5 ; Start with laser off'')
                     paths' scale_factor min_x offset_x offset_y feed_rate pwr
                   @ eol ''G0 X0 Y0'')))"

section \<open>The vocabulary of the specification\<close>

text \<open>
  The specification speaks of instructions, of which the converters write the text.
  \<open>emit\<close> is the emitter as the specification words it: for each curve a rapid move to
  its first point, laser on, a linear move to each further point, laser off. (Its
  curves have at least one point; for a curve without points nothing is emitted here.)
\<close>

datatype 'c instruction = RapidMove 'c 'c | LinearMove 'c 'c int | LaserOn int | LaserOff

fun emit_curve :: "('c \<times> 'c) list \<Rightarrow> int \<Rightarrow> int \<Rightarrow> 'c instruction list" where
  "emit_curve [] pwr feed_rate = []"
| "emit_curve (p # ps) pwr feed_rate =
     RapidMove (fst p) (snd p) # LaserOn pwr
       # map (\<lambda>q. LinearMove (fst q) (snd q) feed_rate) ps @ [LaserOff]"

definition emit :: "('c \<times> 'c) list list \<Rightarrow> int \<Rightarrow> int \<Rightarrow> 'c instruction list" where
  "emit curves pwr feed_rate = concat (map (\<lambda>c. emit_curve c pwr feed_rate) curves)"

text \<open>The text of an instruction in the raster converter and in the vector converter.\<close>

fun raster_text :: "real instruction \<Rightarrow> string" where
  "raster_text (RapidMove x y) = eol (''G0 X'' @ fmt3 x @ '' Y'' @ fmt3 y)"
| "raster_text (LinearMove x y feed_rate) =
     eol (''G1 X'' @ fmt3 x @ '' Y'' @ fmt3 y @ '' F'' @ show_int feed_rate)"
| "raster_text (LaserOn pwr) = eol (''M3 S'' @ show_int pwr)"
| "raster_text LaserOff = eol ''M5 ; Turn off the laser''"

fun vector_text :: "pyfloat instruction \<Rightarrow> string" where
  "vector_text (RapidMove x y) = eol (''G0 X'' @ fmt3f x @ '' Y'' @ fmt3f y)"
| "vector_text (LinearMove x y feed_rate) =
     eol (''G1 X'' @ fmt3f x @ '' Y'' @ fmt3f y @ '' F'' @ show_int feed_rate)"
| "vector_text (LaserOn pwr) = eol (''M3 S'' @ show_int pwr)"
| "vector_text LaserOff = eol ''M5''"

text \<open>
  In the vector converter a curve is a segment: its start and its end, at the
  coordinates that \<^verbatim>\<open>path_to_gcode\<close> computes.
\<close>

definition segment_curve ::
  "pyfloat \<Rightarrow> pyfloat \<Rightarrow> pyfloat \<Rightarrow> pyfloat \<Rightarrow> 'a segment_scheme \<Rightarrow> (pyfloat \<times> pyfloat) list" where
  "segment_curve scale_factor min_x offset_x offset_y segment =
     [(svg_x scale_factor min_x offset_x (Re (seg_start segment)),
       svg_y scale_factor offset_y (Im (seg_start segment))),
      (svg_x scale_factor min_x offset_x (Re (seg_end segment)),
       svg_y scale_factor offset_y (Im (seg_end segment)))]"

text \<open>The three lines that either converter writes first.\<close>

definition raster_header :: string where
  "raster_header =
     eol ''G21 ; Set units to millimeters'' @ eol ''G90 ; Absolute positioning''
       @ eol ''M5 ; Ensure the laser is off to start''"

definition vector_header :: string where
  "vector_header =
     eol ''G21 ; Set units to millimeters'' @ eol ''G90 ; Absolute positioning''
       @ eol ''M5 ; Start with laser off''"

text \<open>
  The points of a vector scene are the end points of its segments; the bounding box of
  a list of points, its longest side and its centre are those of the specification.
\<close>

definition seg_points :: "'a path list \<Rightarrow> point list" where
  "seg_points paths =
     concat (map (\<lambda>line. [(Re (seg_start line), Im (seg_start line)),
                          (Re (seg_end line), Im (seg_end line))]) (concat paths))"

definition bbox :: "point list \<Rightarrow> real \<times> real \<times> real \<times> real" where
  "bbox ps = (Min (set (map fst ps)), Min (set (map snd ps)),
              Max (set (map fst ps)), Max (set (map snd ps)))"

definition bbox_longest_side :: "point list \<Rightarrow> real" where
  "bbox_longest_side ps =
     (case bbox ps of (min_x, min_y, max_x, max_y) \<Rightarrow> max (max_x - min_x) (max_y - min_y))"

definition bbox_center :: "point list \<Rightarrow> point" where
  "bbox_center ps =
     (case bbox ps of (min_x, min_y, max_x, max_y) \<Rightarrow> ((min_x + max_x) / 2, (min_y + max_y) / 2))"

text \<open>
  The transformed geometry of a vector scene: the points of all curves that are
  written, in the order in which they are written. \<open>fin_points\<close> reads a list of points
  with real coordinates as a list of points with finite float coordinates.
\<close>

definition svg_transformed_points ::
  "pyfloat \<Rightarrow> pyfloat \<Rightarrow> pyfloat \<Rightarrow> pyfloat \<Rightarrow> 'a path list \<Rightarrow> (pyfloat \<times> pyfloat) list" where
  "svg_transformed_points scale_factor min_x offset_x offset_y paths =
     concat (map (segment_curve scale_factor min_x offset_x offset_y) (concat paths))"

definition fin_points :: "point list \<Rightarrow> (pyfloat \<times> pyfloat) list" where
  "fin_points ps = map (\<lambda>p. (Fin (fst p), Fin (snd p))) ps"

text \<open>
  A number written with exactly three decimal digits: an optional minus sign, one or
  more digits, a point, three digits. A written text that is exactly one line: it
  ends with the newline character and holds no other.
\<close>

definition is_digit :: "char \<Rightarrow> bool" where
  "is_digit c = (c \<in> set ''0123456789'')"

definition is_fixed3 :: "string \<Rightarrow> bool" where
  "is_fixed3 w =
     (let u = (if w \<noteq> [] \<and> hd w = CHR ''-'' then tl w else w);
          ip = takeWhile is_digit u;
          r = dropWhile is_digit u
      in ip \<noteq> [] \<and> length r = 4 \<and> hd r = CHR ''.'' \<and> list_all is_digit (tl r))"

definition one_line :: "string \<Rightarrow> bool" where
  "one_line t = (t \<noteq> [] \<and> last t = CHR 0x0A \<and> CHR 0x0A \<notin> set (butlast t))"

text \<open>
  Python's \<^verbatim>\<open>float\<close> on the strings of decimal digits, to which alone the examples below
  apply it: the number that the digits write.
\<close>

definition digit_value :: "char \<Rightarrow> nat" where
  "digit_value c = of_char c - 48"

definition float_of_digits :: "string \<Rightarrow> real option" where
  "float_of_digits w =
     (if w \<noteq> [] \<and> list_all is_digit w
      then Some (real (foldl (\<lambda>n c. 10 * n + digit_value c) 0 w))
      else None)"

section \<open>The example parser\<close>

lemma float_of_digits_examples [simp]:
  "float_of_digits ''0'' = Some 0"
  "float_of_digits ''10'' = Some 10"
  "float_of_digits ''100'' = Some 100"
  "float_of_digits ''20'' = Some 20"
  by (simp_all add: float_of_digits_def is_digit_def digit_value_def)

text \<open>
  The set pixels of a binary image as points \<open>(column, row)\<close>, row by row: where a
  shape of the image is, before and after the flip.
\<close>

definition set_pixels :: "bool list list \<Rightarrow> (nat \<times> nat) list" where
  "set_pixels img =
     concat (map (\<lambda>y. map (\<lambda>x. (x, y)) (filter (\<lambda>x. img ! y ! x) [0..<length (img ! y)]))
               [0..<length img])"

section \<open>What the two loops write\<close>

lemma write_contour_Suc:
  "write_contour f (Suc i) ps pwr feed_rate s ox oy =
     f @ concat (map (\<lambda>q. raster_text (LinearMove (fst (contour_xy s ox oy q)) (snd (contour_xy s ox oy q)) feed_rate)) ps)"
  by (induction ps arbitrary: f i) (simp_all add: case_prod_beta)

lemma write_contour_0:
  "write_contour f 0 (p # ps) pwr feed_rate s ox oy @ eol ''M5 ; Turn off the laser'' =
     f @ concat (map raster_text (emit_curve (map (contour_xy s ox oy) (p # ps)) pwr feed_rate))"
  by (simp add: case_prod_beta write_contour_Suc comp_def)

lemma write_contours_emit:
  "list_all (\<lambda>c. c \<noteq> []) contours \<Longrightarrow>
   write_contours f contours pwr feed_rate s ox oy =
     f @ concat (map raster_text (emit (map (map (contour_xy s ox oy)) contours) pwr feed_rate))"
proof (induction contours arbitrary: f)
  case Nil
  then show ?case by (simp add: emit_def)
next
  case (Cons c cs)
  then obtain p ps where c: "c = p # ps" by (cases c) auto
  from Cons have "list_all (\<lambda>c. c \<noteq> []) cs" by simp
  from Cons.IH[OF this] show ?case
    unfolding c by (simp add: write_contour_0 emit_def del: write_contour.simps)

qed

lemma path_to_gcode_loop_emit:
  "path_to_gcode_loop g path s mx ox oy feed_rate pwr =
     g @ concat (map vector_text (emit (map (segment_curve s mx ox oy) path) pwr feed_rate))"
  by (induction path arbitrary: g) (simp_all add: emit_def segment_curve_def Let_def)

lemma write_paths_emit:
  "write_paths f paths s mx ox oy feed_rate pwr =
     f @ concat (map vector_text (emit (map (segment_curve s mx ox oy) (concat paths)) pwr feed_rate))"
  by (induction paths arbitrary: f) (simp_all add: emit_def path_to_gcode_def path_to_gcode_loop_emit)


lemma emit_curve_LaserOff:
  "c \<noteq> [] \<Longrightarrow> count_list (emit_curve c pwr feed_rate) LaserOff = 1"
  by (cases c) (simp_all add: count_list_append count_list_0_iff image_iff)

lemma emit_count_LaserOff:
  "list_all (\<lambda>c. c \<noteq> []) curves \<Longrightarrow>
   count_list (emit curves pwr feed_rate) LaserOff = length curves"
  by (induction curves) (simp_all add: emit_def count_list_append emit_curve_LaserOff)

lemma emit_curve_length:
  "c \<noteq> [] \<Longrightarrow> length (emit_curve c pwr feed_rate) = 1 + 1 + (length c - 1) + 1"
  by (cases c) simp_all

lemma length_pred_succ: "c \<noteq> [] \<Longrightarrow> length c - 1 + 1 = length c"
  by (cases c) simp_all

lemma emit_length:
  "list_all (\<lambda>c. c \<noteq> []) curves \<Longrightarrow>
   length (emit curves pwr feed_rate) = (\<Sum>c\<leftarrow>curves. 1 + 1 + (length c - 1) + 1)"
  by (induction curves) (simp_all add: emit_def emit_curve_length length_pred_succ)

lemma generate_gcode_emit:
  "list_all (\<lambda>c. c \<noteq> []) contours \<Longrightarrow>
   generate_gcode contours pwr feed_rate s ox oy =
     raster_header
       @ concat (map raster_text (emit (map (map (contour_xy s ox oy)) contours) pwr feed_rate))
       @ eol ''G0 X0 Y0''"
  by (simp add: generate_gcode_def raster_header_def write_contours_emit)

lemma svg_to_gcode_emit:
  "svg_to_gcode float_of paths svg_attributes pwr feed_rate longest_side center_offset =
     (case calculate_scaling_factor_and_transform float_of paths svg_attributes longest_side of
        (paths', Inl e) \<Rightarrow> Inl e
      | (paths', Inr (scale_factor, min_x, svg_height)) \<Rightarrow>
          (case svg_offsets center_offset scale_factor min_x svg_height of
             (offset_x, offset_y) \<Rightarrow>
               Inr (vector_header
                      @ concat (map vector_text
                          (emit (map (segment_curve scale_factor min_x offset_x offset_y)
                                   (concat paths')) pwr feed_rate))
                      @ eol ''G0 X0 Y0'')))"
  by (simp add: svg_to_gcode_def vector_header_def write_paths_emit
           split: prod.splits sum.splits)

text \<open>
  Claim C3. For a scene of curves with at least one point each, what is written after
  the three header lines is, curve by curve in the order of the scene, the text of a
  rapid move to the transformed first point, of laser on with the given power, of one
  linear move for each further point, and of laser off, so that laser off occurs once
  for each curve and the instructions number \<open>1 + 1 + (p - 1) + 1\<close> for a curve of \<open>p\<close>
  points; the last line is one rapid move to the origin. The raster converter's
  curves are the contours; the vector converter's are the segments of all paths, two
  points each.
\<close>

theorem C3_emitted_sequence:
  assumes "list_all (\<lambda>c. c \<noteq> []) contours"
  shows "generate_gcode contours pwr feed_rate s ox oy =
           raster_header
             @ concat (map raster_text
                 (emit (map (map (contour_xy s ox oy)) contours) pwr feed_rate))
             @ eol ''G0 X0 Y0''
         \<and> count_list (emit (map (map (contour_xy s ox oy)) contours) pwr feed_rate) LaserOff
             = length contours
         \<and> length (emit (map (map (contour_xy s ox oy)) contours) pwr feed_rate)
             = (\<Sum>c\<leftarrow>contours. 1 + 1 + (length c - 1) + 1)
         \<and> svg_to_gcode float_of paths svg_attributes pwr feed_rate longest_side center_offset =
             (case calculate_scaling_factor_and_transform float_of paths svg_attributes
                     longest_side of
                (paths', Inl e) \<Rightarrow> Inl e
              | (paths', Inr (scale_factor, min_x, svg_height)) \<Rightarrow>
                  (case svg_offsets center_offset scale_factor min_x svg_height of
                     (offset_x, offset_y) \<Rightarrow>
                       Inr (vector_header
                              @ concat (map vector_text
                                  (emit (map (segment_curve scale_factor min_x offset_x offset_y)
                                           (concat paths')) pwr feed_rate))
                              @ eol ''G0 X0 Y0'')))"
proof -
  let ?cs = "map (map (contour_xy s ox oy)) contours"
  from assms have ne: "list_all (\<lambda>c. c \<noteq> []) ?cs"
    by (induction contours) simp_all
  have len: "(\<Sum>c\<leftarrow>?cs. 1 + 1 + (length c - 1) + 1) = (\<Sum>c\<leftarrow>contours. 1 + 1 + (length c - 1) + 1)"
    by (simp add: comp_def del: One_nat_def)
  show ?thesis
    using generate_gcode_emit[OF assms] emit_count_LaserOff[OF ne] emit_length[OF ne] len
          svg_to_gcode_emit
    by (simp del: One_nat_def)
qed

theorem C3_emitted_sequence_witness:
  "list_all (\<lambda>c. c \<noteq> []) [[(0, 0), (10, 0), (10, 10), (0, 10 :: real)]]
   \<and> generate_gcode [[(0, 0), (10, 0), (10, 10), (0, 10)]] 800 500 2 0 0 =
       ''G21 ; Set units to millimeters\<newline>G90 ; Absolute positioning\<newline>M5 ; Ensure the laser is off to start\<newline>G0 X0.000 Y0.000\<newline>M3 S800\<newline>G1 X20.000 Y0.000 F500\<newline>G1 X20.000 Y20.000 F500\<newline>G1 X0.000 Y20.000 F500\<newline>M5 ; Turn off the laser\<newline>G0 X0 Y0\<newline>''"
proof -
  have ne: "list_all (\<lambda>c. c \<noteq> []) [[(0, 0), (10, 0), (10, 10), (0, 10 :: real)]]"
    by simp
  have "generate_gcode [[(0, 0), (10, 0), (10, 10), (0, 10)]] 800 500 2 0 0 =
          raster_header
            @ concat (map raster_text
                (emit (map (map (contour_xy 2 0 0)) [[(0, 0), (10, 0), (10, 10), (0, 10)]]) 800 500))
            @ eol ''G0 X0 Y0''"
    using C3_emitted_sequence[OF ne, of 800 500 2 0 0] by blast
  also have "\<dots> = ''G21 ; Set units to millimeters\<newline>G90 ; Absolute positioning\<newline>M5 ; Ensure the laser is off to start\<newline>G0 X0.000 Y0.000\<newline>M3 S800\<newline>G1 X20.000 Y0.000 F500\<newline>G1 X20.000 Y20.000 F500\<newline>G1 X0.000 Y20.000 F500\<newline>M5 ; Turn off the laser\<newline>G0 X0 Y0\<newline>''"
    by (simp add: raster_header_def emit_def contour_xy_def eol_def fmt3_def
          round_half_even_def pad3_def digit_char_def show_int_def show_nat.simps)
  finally show ?thesis using ne by blast
qed

section \<open>Segments of any kind\<close>

lemma segment_curve_endpoints:
  "segment_curve s mx ox oy \<lparr>seg_start = seg_start segment, seg_end = seg_end segment\<rparr>
     = segment_curve s mx ox oy segment"
  by (simp add: segment_curve_def)

lemma path_to_gcode_blocks:
  "path_to_gcode path s mx ox oy feed_rate pwr =
     concat (map (\<lambda>segment.
        eol (''G0 X'' @ fmt3f (svg_x s mx ox (Re (seg_start segment)))
               @ '' Y'' @ fmt3f (svg_y s oy (Im (seg_start segment))))
        @ eol (''M3 S'' @ show_int pwr)
        @ eol (''G1 X'' @ fmt3f (svg_x s mx ox (Re (seg_end segment)))
               @ '' Y'' @ fmt3f (svg_y s oy (Im (seg_end segment)))
               @ '' F'' @ show_int feed_rate)
        @ eol ''M5'') path)"
  unfolding path_to_gcode_def path_to_gcode_loop_emit
  by (induction path) (simp_all add: emit_def segment_curve_def)

text \<open>
  Claim C10. For every segment of a path, whatever else the segment holds besides its
  start and its end, \<^verbatim>\<open>path_to_gcode\<close> writes four lines: a rapid move to the transformed
  start, laser on, one linear move to the transformed end, laser off. The text is
  that written for the straight line with the same two end points.
\<close>

theorem C10_segment_is_one_chord:
  "path_to_gcode path s mx ox oy feed_rate pwr =
     concat (map (\<lambda>segment.
        eol (''G0 X'' @ fmt3f (svg_x s mx ox (Re (seg_start segment)))
               @ '' Y'' @ fmt3f (svg_y s oy (Im (seg_start segment))))
        @ eol (''M3 S'' @ show_int pwr)
        @ eol (''G1 X'' @ fmt3f (svg_x s mx ox (Re (seg_end segment)))
               @ '' Y'' @ fmt3f (svg_y s oy (Im (seg_end segment)))
               @ '' F'' @ show_int feed_rate)
        @ eol ''M5'') path)
   \<and> path_to_gcode path s mx ox oy feed_rate pwr =
       path_to_gcode
         (map (\<lambda>segment. \<lparr>seg_start = seg_start segment, seg_end = seg_end segment\<rparr>) path)
         s mx ox oy feed_rate pwr
   \<and> length (emit (map (segment_curve s mx ox oy) path) pwr feed_rate) = 4 * length path"
proof -
  have "length (emit (map (segment_curve s mx ox oy) path) pwr feed_rate) = 4 * length path"
    by (induction path) (simp_all add: emit_def segment_curve_def)
  moreover have "path_to_gcode path s mx ox oy feed_rate pwr =
       path_to_gcode
         (map (\<lambda>segment. \<lparr>seg_start = seg_start segment, seg_end = seg_end segment\<rparr>) path)
         s mx ox oy feed_rate pwr"
  proof -
    have "map (segment_curve s mx ox oy)
            (map (\<lambda>segment. \<lparr>seg_start = seg_start segment, seg_end = seg_end segment\<rparr>) path)
          = map (segment_curve s mx ox oy) path"
      by (simp add: comp_def segment_curve_endpoints)
    then show ?thesis
      by (simp only: path_to_gcode_def path_to_gcode_loop_emit)
  qed
  ultimately show ?thesis
    using path_to_gcode_blocks[of path s mx ox oy feed_rate pwr] by simp
qed

section \<open>Power and feed rate\<close>

text \<open>
  Claim C7 as stated: a power or feed rate that is zero or negative makes the emitter
  fail and nothing is written. The raster converter called with power 0 and feed
  rate -5 returns, and has written both numbers.
\<close>

theorem C7_counterexample:
  "image_to_gcode (10, 10, 3) [[(1, 2), (3, 4)]] 0 (- 5) None None =
     Inr ''G21 ; Set units to millimeters\<newline>G90 ; Absolute positioning\<newline>M5 ; Ensure the laser is off to start\<newline>G0 X1.000 Y2.000\<newline>M3 S0\<newline>G1 X3.000 Y4.000 F-5\<newline>M5 ; Turn off the laser\<newline>G0 X0 Y0\<newline>''"
  by (simp add: image_to_gcode_def image_scale_factor_def image_offsets_def generate_gcode_def
        contour_xy_def eol_def fmt3_def round_half_even_def pad3_def digit_char_def
        show_int_def show_nat.simps)

text \<open>
  Claim C7 as amended. Neither converter examines the power or the feed rate: whether
  a conversion fails is decided by the computation of the scale alone, and for every
  pair of integers the raster emitter returns the file with the power written after
  \<^verbatim>\<open>M3 S\<close> and the feed rate after \<^verbatim>\<open>F\<close>, in the digits of the integer.
\<close>

theorem C7_no_validation:
  "isl (image_to_gcode shape contours pwr feed_rate longest_side center_offset)
     = isl (image_scale_factor shape longest_side)
   \<and> isl (svg_to_gcode float_of paths svg_attributes pwr feed_rate longest_side center_offset)
     = isl (snd (calculate_scaling_factor_and_transform float_of paths svg_attributes
                   longest_side))
   \<and> generate_gcode [p # ps] pwr feed_rate s ox oy =
       raster_header
         @ eol (''G0 X'' @ fmt3 (fst (contour_xy s ox oy p)) @ '' Y''
                  @ fmt3 (snd (contour_xy s ox oy p)))
         @ eol (''M3 S'' @ show_int pwr)
         @ concat (map (\<lambda>q. eol (''G1 X'' @ fmt3 (fst (contour_xy s ox oy q)) @ '' Y''
                  @ fmt3 (snd (contour_xy s ox oy q)) @ '' F'' @ show_int feed_rate)) ps)
         @ eol ''M5 ; Turn off the laser''
         @ eol ''G0 X0 Y0''"
proof -
  have a: "isl (image_to_gcode shape contours pwr feed_rate longest_side center_offset)
     = isl (image_scale_factor shape longest_side)"
    by (simp add: image_to_gcode_def split: sum.splits prod.splits)
  have b: "isl (svg_to_gcode float_of paths svg_attributes pwr feed_rate longest_side center_offset)
     = isl (snd (calculate_scaling_factor_and_transform float_of paths svg_attributes
                   longest_side))"
    by (simp add: svg_to_gcode_def split: sum.splits prod.splits)
  have c: "generate_gcode [p # ps] pwr feed_rate s ox oy =
       raster_header
         @ eol (''G0 X'' @ fmt3 (fst (contour_xy s ox oy p)) @ '' Y''
                  @ fmt3 (snd (contour_xy s ox oy p)))
         @ eol (''M3 S'' @ show_int pwr)
         @ concat (map (\<lambda>q. eol (''G1 X'' @ fmt3 (fst (contour_xy s ox oy q)) @ '' Y''
                  @ fmt3 (snd (contour_xy s ox oy q)) @ '' F'' @ show_int feed_rate)) ps)
         @ eol ''M5 ; Turn off the laser''
         @ eol ''G0 X0 Y0''"
    by (simp add: generate_gcode_emit emit_def comp_def)
  from a b c show ?thesis by blast
qed

section \<open>The height of the document\<close>

text \<open>
  Claim C6 at a document that declares a height and no view box: the branch for the
  height attribute reads the undefined name \<^verbatim>\<open>s_attr\<close>, so the call raises
  \<^verbatim>\<open>NameError\<close>, whatever the value of the attribute, where the claim takes the flip
  height from it. With a view box of four numbers the height is its last number, and
  with neither attribute the call raises \<^verbatim>\<open>ValueError\<close>, as the claim says.
\<close>

theorem C6_height_attribute_raises:
  "svg_height_of float_of [''height'' \<mapsto> ''100''] = Inl NameError
   \<and> calculate_scaling_factor_and_transform float_of paths [''height'' \<mapsto> ''100''] target
       = (paths, Inl NameError)
   \<and> svg_to_gcode float_of paths [''height'' \<mapsto> ''100''] pwr feed_rate target center_offset
       = Inl NameError
   \<and> svg_height_of float_of Map.empty = Inl ValueError
   \<and> svg_height_of float_of_digits
        [''viewBox'' \<mapsto> ''0 0 100 100'', ''height'' \<mapsto> ''50mm''] = Inr 100"
  by (simp add: svg_height_of_def calculate_scaling_factor_and_transform_def svg_to_gcode_def
        split_ws_def is_space_def)

section \<open>The scan of the end points\<close>

lemma scan_paths_concat:
  "scan_paths paths = fold scan_line (concat paths) (PInf, PInf, NInf, NInf)"
  unfolding scan_paths_def
proof (induction paths arbitrary: rule: rev_induct)
  case Nil
  then show ?case by simp
next
  case (snoc p ps)
  then show ?case by simp
qed

lemma Min_insert_min:
  "finite S \<Longrightarrow> Min (insert (min a b) S) = Min (insert a (insert b (S :: real set)))"
  by (cases "S = {}") (simp_all add: min.assoc)

lemma Max_insert_max:
  "finite S \<Longrightarrow> Max (insert (max a b) S) = Max (insert a (insert b (S :: real set)))"
  by (cases "S = {}") (simp_all add: max.assoc)

lemma scan_line_init:
  "scan_line line (PInf, PInf, NInf, NInf) =
     (Fin (min (Re (seg_start line)) (Re (seg_end line))),
      Fin (min (Im (seg_start line)) (Im (seg_end line))),
      Fin (max (Re (seg_start line)) (Re (seg_end line))),
      Fin (max (Im (seg_start line)) (Im (seg_end line))))"
  by (simp add: scan_line_def py_min3_def py_max3_def py_min2_def py_max2_def min_def max_def)

lemma scan_line_Fin:
  "scan_line line (Fin a, Fin b, Fin c, Fin d) =
     (Fin (min (min a (Re (seg_start line))) (Re (seg_end line))),
      Fin (min (min b (Im (seg_start line))) (Im (seg_end line))),
      Fin (max (max c (Re (seg_start line))) (Re (seg_end line))),
      Fin (max (max d (Im (seg_start line))) (Im (seg_end line))))"
  by (simp add: scan_line_def py_min3_def py_max3_def py_min2_def py_max2_def min_def max_def)

lemma fold_scan_line_Fin:
  "fold scan_line segs (Fin a, Fin b, Fin c, Fin d) =
     (Fin (Min (insert a (set (map fst (seg_points [segs]))))),
      Fin (Min (insert b (set (map snd (seg_points [segs]))))),
      Fin (Max (insert c (set (map fst (seg_points [segs]))))),
      Fin (Max (insert d (set (map snd (seg_points [segs]))))))"
proof (induction segs arbitrary: a b c d)
  case Nil
  then show ?case by (simp add: seg_points_def)
next
  case (Cons l ls)
  have fin: "finite (set (map fst (seg_points [ls])))" "finite (set (map snd (seg_points [ls])))"
    by simp_all
  show ?case
    apply (simp only: fold_simps scan_line_Fin Cons.IH)
    apply (simp add: seg_points_def Min_insert_min Max_insert_max min.assoc max.assoc)
    done
qed


lemma seg_points_concat: "seg_points [concat paths] = seg_points paths"
  by (simp add: seg_points_def)

lemma scan_paths_nonempty:
  assumes "concat paths \<noteq> []"
  shows "scan_paths paths =
           (case bbox (seg_points paths) of
              (min_x, min_y, max_x, max_y) \<Rightarrow> (Fin min_x, Fin min_y, Fin max_x, Fin max_y))"
proof -
  from assms obtain l ls where c: "concat paths = l # ls" by (cases "concat paths") auto
  have sp: "seg_points paths =
              (Re (seg_start l), Im (seg_start l)) # (Re (seg_end l), Im (seg_end l))
                # seg_points [ls]"
    by (simp add: seg_points_def c)
  show ?thesis
    unfolding scan_paths_concat c
    by (simp only: fold_simps scan_line_init fold_scan_line_Fin)
       (simp add: bbox_def sp Min_insert_min Max_insert_max)
qed

lemma scan_paths_empty:
  assumes "concat paths = []"
  shows "scan_paths paths = (PInf, PInf, NInf, NInf)"
  unfolding scan_paths_concat assms by simp

lemma calculate_no_height:
  "svg_height_of float_of svg_attributes = Inl e \<Longrightarrow>
   calculate_scaling_factor_and_transform float_of paths svg_attributes target = (paths, Inl e)"
  by (simp add: calculate_scaling_factor_and_transform_def)

lemma calculate_empty:
  assumes "svg_height_of float_of svg_attributes = Inr h" "concat paths = []"
  shows "calculate_scaling_factor_and_transform float_of paths svg_attributes target =
     (flip_paths h paths,
      case target of None \<Rightarrow> Inr (Fin 1, PInf, h) | Some t \<Rightarrow> Inr (Fin 0, PInf, h))"
  unfolding calculate_scaling_factor_and_transform_def assms(1) scan_paths_empty[OF assms(2)]
  by (simp add: pf_sub_def py_max2_def py_truediv_def split: option.splits)

lemma calculate_nonempty:
  assumes "svg_height_of float_of svg_attributes = Inr h" "concat paths \<noteq> []"
  shows "calculate_scaling_factor_and_transform float_of paths svg_attributes target =
     (flip_paths h paths,
      case target of
        None \<Rightarrow> Inr (Fin 1, Fin (fst (bbox (seg_points paths))), h)
      | Some t \<Rightarrow>
          if bbox_longest_side (seg_points paths) = 0 then Inl ZeroDivisionError
          else Inr (Fin (t / bbox_longest_side (seg_points paths)),
                    Fin (fst (bbox (seg_points paths))), h))"
proof -
  obtain a b c d where bb: "bbox (seg_points paths) = (a, b, c, d)"
    by (cases "bbox (seg_points paths)") auto
  have sc: "scan_paths paths = (Fin a, Fin b, Fin c, Fin d)"
    by (simp add: scan_paths_nonempty[OF assms(2)] bb)
  have cl: "py_max2 (pf_sub (Fin c) (Fin a)) (pf_sub (Fin d) (Fin b))
              = Fin (bbox_longest_side (seg_points paths))"
    by (simp add: py_max2_def pf_sub_def bbox_longest_side_def bb max_def)
  show ?thesis
    unfolding calculate_scaling_factor_and_transform_def assms(1) sc
    by (simp add: cl py_truediv_def bb split: option.splits)
qed

lemma Max_image_mono:
  fixes f :: "real \<Rightarrow> real"
  assumes "finite S" "S \<noteq> {}" "\<And>x y. x \<le> y \<Longrightarrow> f x \<le> f y"
  shows "Max (f ` S) = f (Max S)" and "Min (f ` S) = f (Min S)"
proof -
  show "Max (f ` S) = f (Max S)"
  proof (rule Max_eqI)
    show "finite (f ` S)" using assms(1) by simp
    show "f (Max S) \<in> f ` S" using assms(1,2) by (simp add: Max_in)
    fix y assume "y \<in> f ` S"
    then show "y \<le> f (Max S)" using assms(1,3) by auto
  qed
  show "Min (f ` S) = f (Min S)"
  proof (rule Min_eqI)
    show "finite (f ` S)" using assms(1) by simp
    show "f (Min S) \<in> f ` S" using assms(1,2) by (simp add: Min_in)
    fix y assume "y \<in> f ` S"
    then show "f (Min S) \<le> y" using assms(1,3) by auto
  qed
qed

lemma Max_image_anti:
  fixes f :: "real \<Rightarrow> real"
  assumes "finite S" "S \<noteq> {}" "\<And>x y. x \<le> y \<Longrightarrow> f y \<le> f x"
  shows "Max (f ` S) = f (Min S)" and "Min (f ` S) = f (Max S)"
proof -
  show "Max (f ` S) = f (Min S)"
  proof (rule Max_eqI)
    show "finite (f ` S)" using assms(1) by simp
    show "f (Min S) \<in> f ` S" using assms(1,2) by (simp add: Min_in)
    fix y assume "y \<in> f ` S"
    then show "y \<le> f (Min S)" using assms(1,3) by auto
  qed
  show "Min (f ` S) = f (Max S)"
  proof (rule Min_eqI)
    show "finite (f ` S)" using assms(1) by simp
    show "f (Max S) \<in> f ` S" using assms(1,2) by (simp add: Max_in)
    fix y assume "y \<in> f ` S"
    then show "f (Max S) \<le> y" using assms(1,3) by auto
  qed
qed

lemma bbox_affine_up:
  assumes "ps \<noteq> []" "0 \<le> s"
  shows "bbox (map (\<lambda>p. (fst p * s + a, snd p * s + b)) ps) =
           (case bbox ps of (min_x, min_y, max_x, max_y) \<Rightarrow>
              (min_x * s + a, min_y * s + b, max_x * s + a, max_y * s + b))"
proof -
  have fx: "fst ` (\<lambda>p. (fst p * s + a, snd p * s + b)) ` set ps
              = (\<lambda>x. x * s + a) ` (fst ` set ps)"
    and fy: "snd ` (\<lambda>p. (fst p * s + a, snd p * s + b)) ` set ps
              = (\<lambda>y. y * s + b) ` (snd ` set ps)"
    by (simp_all add: image_image)
  have ne: "fst ` set ps \<noteq> {}" "snd ` set ps \<noteq> {}" using assms by simp_all
  have fin: "finite (fst ` set ps)" "finite (snd ` set ps)" by simp_all
  have m: "\<And>c x y. x \<le> y \<Longrightarrow> x * s + c \<le> y * s + (c::real)"
    using assms(2) by (simp add: mult_right_mono)
  show ?thesis
    unfolding bbox_def set_map fx fy
    by (simp only: Max_image_mono[OF fin(1) ne(1) m] Max_image_mono[OF fin(2) ne(2) m]
          prod.case)
qed

lemma bbox_affine_down:
  assumes "ps \<noteq> []" "s \<le> 0"
  shows "bbox (map (\<lambda>p. (fst p * s + a, snd p * s + b)) ps) =
           (case bbox ps of (min_x, min_y, max_x, max_y) \<Rightarrow>
              (max_x * s + a, max_y * s + b, min_x * s + a, min_y * s + b))"
proof -
  have fx: "fst ` (\<lambda>p. (fst p * s + a, snd p * s + b)) ` set ps
              = (\<lambda>x. x * s + a) ` (fst ` set ps)"
    and fy: "snd ` (\<lambda>p. (fst p * s + a, snd p * s + b)) ` set ps
              = (\<lambda>y. y * s + b) ` (snd ` set ps)"
    by (simp_all add: image_image)
  have ne: "fst ` set ps \<noteq> {}" "snd ` set ps \<noteq> {}" using assms by simp_all
  have fin: "finite (fst ` set ps)" "finite (snd ` set ps)" by simp_all
  have m: "\<And>c x y. x \<le> y \<Longrightarrow> y * s + c \<le> x * s + (c::real)"
    using assms(2) by (simp add: mult_right_mono_neg)
  show ?thesis
    unfolding bbox_def set_map fx fy
    by (simp only: Max_image_anti[OF fin(1) ne(1) m] Max_image_anti[OF fin(2) ne(2) m]
          prod.case)
qed

lemma bbox_flip:
  assumes "ps \<noteq> []"
  shows "bbox (map (\<lambda>p. (fst p, h - snd p)) ps) =
           (case bbox ps of (min_x, min_y, max_x, max_y) \<Rightarrow>
              (min_x, h - max_y, max_x, h - min_y))"
proof -
  have fx: "fst ` (\<lambda>p. (fst p, h - snd p)) ` set ps = fst ` set ps"
    and fy: "snd ` (\<lambda>p. (fst p, h - snd p)) ` set ps
              = (\<lambda>y. h - y) ` (snd ` set ps)"
    by (simp_all add: image_image)
  have ne: "snd ` set ps \<noteq> {}" using assms by simp
  have fin: "finite (snd ` set ps)" by simp
  have m: "\<And>x y. x \<le> y \<Longrightarrow> h - y \<le> h - (x::real)" by simp
  show ?thesis
    unfolding bbox_def set_map fx fy
    by (simp only: Max_image_anti[OF fin ne m] prod.case)
qed

section \<open>The flip\<close>

lemma flip_line_twice: "flip_line h (flip_line h line) = line"
  by (simp add: flip_line_def)

lemma flip_paths_twice: "flip_paths h (flip_paths h paths) = paths"
  by (simp add: flip_paths_def comp_def flip_line_twice)

lemma calculate_paths:
  "fst (calculate_scaling_factor_and_transform float_of paths svg_attributes target) =
     (case svg_height_of float_of svg_attributes of
        Inl e \<Rightarrow> paths
      | Inr h \<Rightarrow> flip_paths h paths)"
  by (simp add: calculate_scaling_factor_and_transform_def Let_def
        split: sum.splits prod.splits option.splits)

lemma set_pixels_mem:
  "((x, y) \<in> set (set_pixels img)) = (y < length img \<and> x < length (img ! y) \<and> img ! y ! x)"
  by (auto simp: set_pixels_def)

lemma set_pixels_flip:
  "((x, y) \<in> set (set_pixels (cv2_flip0 img)))
     = (y < length img \<and> (x, length img - 1 - y) \<in> set (set_pixels img))"
proof (cases "y < length img")
  case True
  then have "rev img ! y = img ! (length img - 1 - y)" by (simp add: rev_nth)
  moreover from True have "length img - 1 - y < length img" by simp
  ultimately show ?thesis using True by (simp add: set_pixels_mem cv2_flip0_def)
next
  case False
  then show ?thesis by (simp add: set_pixels_mem cv2_flip0_def)
qed

text \<open>
  Claim C4 as stated, at the raster converter: every point \<open>(x, y)\<close> goes to
  \<open>(x, height - y)\<close>. In an image of three rows whose one set pixel is at \<open>(0, 0)\<close>, the
  flip of the source leaves the set pixel at \<open>(0, 2)\<close>, where the contour is then found,
  and not at \<open>(0, 3 - 0)\<close>, which is no row of the image.
\<close>

theorem C4_counterexample:
  "set_pixels [[True], [False], [False]] = [(0, 0)]
   \<and> set_pixels (cv2_flip0 [[True], [False], [False]]) = [(0, 2)]
   \<and> length (cv2_flip0 [[True], [False], [False]]) = 3
   \<and> (2 :: nat) \<noteq> 3 - 0
   \<and> (0, 3 - 0) \<notin> set (set_pixels (cv2_flip0 [[True], [False], [False]]))"
  by (simp add: set_pixels_def cv2_flip0_def)

text \<open>
  Claim C4 as amended. In the vector converter every end point \<open>(x, y)\<close> of every segment
  is replaced by \<open>(x, svg_height - y)\<close>, and the coordinates that are written are computed
  from the flipped point, so the flip comes before scale and offset; flipping twice
  with the same height gives back the scene, also through two calls of
  \<^verbatim>\<open>calculate_scaling_factor_and_transform\<close>. In the raster converter the flip is that of
  the image, before the contours are found and so before scale and offset: the pixel
  of row \<open>y\<close> goes to row \<open>rows - 1 - y\<close> of as many rows, and flipping twice gives back
  the image.
\<close>

theorem C4_flip:
  assumes "svg_height_of float_of svg_attributes = Inr h"
  shows "fst (calculate_scaling_factor_and_transform float_of paths svg_attributes target)
           = flip_paths h paths
         \<and> flip_paths h paths =
             map (map (\<lambda>line.
               line\<lparr>seg_start := Complex (Re (seg_start line)) (h - Im (seg_start line)),
                    seg_end := Complex (Re (seg_end line)) (h - Im (seg_end line))\<rparr>)) paths
         \<and> map (segment_curve s mx ox oy) (concat (flip_paths h paths)) =
             map (\<lambda>line.
               [(svg_x s mx ox (Re (seg_start line)), svg_y s oy (h - Im (seg_start line))),
                (svg_x s mx ox (Re (seg_end line)), svg_y s oy (h - Im (seg_end line)))])
               (concat paths)
         \<and> flip_paths h (flip_paths h paths) = paths
         \<and> fst (calculate_scaling_factor_and_transform float_of
                  (fst (calculate_scaling_factor_and_transform float_of paths svg_attributes
                          target))
                  svg_attributes target') = paths
         \<and> image_to_gcode_binary shape gaussian_blur find_contours binary pwr feed_rate
               longest_side center_offset
             = image_to_gcode shape (find_contours (gaussian_blur (cv2_flip0 binary)))
                 pwr feed_rate longest_side center_offset
         \<and> length (cv2_flip0 img) = length img
         \<and> ((x, y) \<in> set (set_pixels (cv2_flip0 img)))
             = (y < length img \<and> (x, length img - 1 - y) \<in> set (set_pixels img))
         \<and> cv2_flip0 (cv2_flip0 img) = img"
proof -
  have a: "fst (calculate_scaling_factor_and_transform float_of paths svg_attributes target)
           = flip_paths h paths" for paths :: "'a path list" and target
    by (simp add: calculate_paths assms)
  have b: "flip_paths h paths =
             map (map (\<lambda>line.
               line\<lparr>seg_start := Complex (Re (seg_start line)) (h - Im (seg_start line)),
                    seg_end := Complex (Re (seg_end line)) (h - Im (seg_end line))\<rparr>)) paths"
    by (simp add: flip_paths_def flip_line_def fun_eq_iff)
  have c: "map (segment_curve s mx ox oy) (concat (flip_paths h paths)) =
             map (\<lambda>line.
               [(svg_x s mx ox (Re (seg_start line)), svg_y s oy (h - Im (seg_start line))),
                (svg_x s mx ox (Re (seg_end line)), svg_y s oy (h - Im (seg_end line)))])
               (concat paths)"
    by (simp add: flip_paths_def map_concat comp_def segment_curve_def flip_line_def)
  have e: "fst (calculate_scaling_factor_and_transform float_of
                  (fst (calculate_scaling_factor_and_transform float_of paths svg_attributes
                          target))
                  svg_attributes target') = paths"
    by (simp only: a flip_paths_twice)
  have f: "image_to_gcode_binary shape gaussian_blur find_contours binary pwr feed_rate
               longest_side center_offset
             = image_to_gcode shape (find_contours (gaussian_blur (cv2_flip0 binary)))
                 pwr feed_rate longest_side center_offset"
    by (simp add: image_to_gcode_binary_def image_contours_def)
  have g: "length (cv2_flip0 img) = length img" by (simp add: cv2_flip0_def)
  have d: "cv2_flip0 (cv2_flip0 img) = img" by (simp add: cv2_flip0_def)
  from a b c flip_paths_twice e f g set_pixels_flip d show ?thesis
    by (intro conjI)
qed

theorem C4_flip_witness:
  "svg_height_of float_of_digits [''viewBox'' \<mapsto> ''0 0 10 10''] = Inr 10
   \<and> fst (calculate_scaling_factor_and_transform float_of_digits
            [[\<lparr>seg_start = Complex 0 1, seg_end = Complex 2 3\<rparr>]]
            [''viewBox'' \<mapsto> ''0 0 10 10''] None)
       = [[\<lparr>seg_start = Complex 0 9, seg_end = Complex 2 7\<rparr>]]"
proof -
  have h: "svg_height_of float_of_digits [''viewBox'' \<mapsto> ''0 0 10 10''] = Inr 10"
    by (simp add: svg_height_of_def split_ws_def is_space_def)
  have "fst (calculate_scaling_factor_and_transform float_of_digits
            [[\<lparr>seg_start = Complex 0 1, seg_end = Complex 2 3\<rparr>]]
            [''viewBox'' \<mapsto> ''0 0 10 10''] None)
          = flip_paths 10 [[\<lparr>seg_start = Complex 0 1, seg_end = Complex 2 3\<rparr>]]"
    using C4_flip[OF h] by blast
  also have "\<dots> = [[\<lparr>seg_start = Complex 0 9, seg_end = Complex 2 7\<rparr>]]"
    by (simp add: flip_paths_def flip_line_def)
  finally show ?thesis using h by blast
qed

section \<open>What computing the transform does to the scene\<close>

text \<open>
  Claim C9 as stated: computing scale and offset leaves every point of the scene as it
  was. The vector converter's \<^verbatim>\<open>calculate_scaling_factor_and_transform\<close> leaves the
  segment from \<open>(0, 1)\<close> to \<open>(2, 3)\<close> of a document of height 10 as the segment from
  \<open>(0, 9)\<close> to \<open>(2, 7)\<close>.
\<close>

theorem C9_counterexample:
  "fst (calculate_scaling_factor_and_transform
          float_of_digits
          [[\<lparr>seg_start = Complex 0 1, seg_end = Complex 2 3\<rparr>]]
          [''viewBox'' \<mapsto> ''0 0 10 10''] None)
     = [[\<lparr>seg_start = Complex 0 9, seg_end = Complex 2 7\<rparr>]]
   \<and> [[\<lparr>seg_start = Complex 0 9, seg_end = Complex 2 7\<rparr>]]
       \<noteq> [[\<lparr>seg_start = Complex 0 1, seg_end = Complex 2 3\<rparr>]]"
  by (simp add: calculate_paths svg_height_of_def split_ws_def is_space_def
        flip_paths_def flip_line_def)

text \<open>
  Claim C9 as amended. In the raster converter the scale and the offset are computed
  from the shape of the image and the two options, and the contours reach the emitter
  as they were. In the vector converter \<^verbatim>\<open>calculate_scaling_factor_and_transform\<close>
  computes the scale and flips the scene in place: when the height of the document is
  found, every segment is left with the imaginary parts of its start and end replaced
  by the height minus them, the real parts and everything else of the segment as they
  were; when the height is not found, the scene is left as it was.
\<close>

theorem C9_normalize_effect_on_scene:
  "image_to_gcode shape contours pwr feed_rate longest_side center_offset =
     (case image_scale_factor shape longest_side of
        Inl e \<Rightarrow> Inl e
      | Inr scale_factor \<Rightarrow>
          Inr (generate_gcode contours pwr feed_rate scale_factor
                 (fst (image_offsets center_offset)) (snd (image_offsets center_offset))))
   \<and> fst (calculate_scaling_factor_and_transform float_of paths svg_attributes target) =
       (case svg_height_of float_of svg_attributes of
          Inl e \<Rightarrow> paths
        | Inr h \<Rightarrow> map (map (flip_line h)) paths)
   \<and> Re (seg_start (flip_line h line)) = Re (seg_start line)
   \<and> Re (seg_end (flip_line h line)) = Re (seg_end line)
   \<and> Im (seg_start (flip_line h line)) = h - Im (seg_start line)
   \<and> Im (seg_end (flip_line h line)) = h - Im (seg_end line)
   \<and> segment.more (flip_line h line) = segment.more line"
  by (simp add: image_to_gcode_def calculate_paths flip_paths_def flip_line_def
        split: sum.splits prod.splits)

section \<open>Scale\<close>

lemma svg_x_Fin: "svg_x (Fin s) (Fin mx) (Fin ox) x = Fin ((x - mx) * s + ox)"
  by (simp add: svg_x_def pf_sub_def)

lemma svg_y_Fin: "svg_y (Fin s) (Fin oy) y = Fin (y * s + oy)"
  by (simp add: svg_y_def)

lemma svg_offsets_Fin:
  "svg_offsets center_offset (Fin s) (Fin mx) h =
     (Fin (fst (case center_offset of Some c \<Rightarrow> c | None \<Rightarrow> (0, 0)) - (mx + (h - mx) * s / 2)),
      Fin (snd (case center_offset of Some c \<Rightarrow> c | None \<Rightarrow> (0, 0)) - h * s / 2))"
  by (simp add: svg_offsets_def svg_center_def pf_sub_def split: option.splits prod.splits)

lemma svg_transformed_points_Fin:
  "svg_transformed_points (Fin s) (Fin mx) (Fin ox) (Fin oy) (flip_paths h paths) =
     fin_points (map (\<lambda>p. ((fst p - mx) * s + ox, (h - snd p) * s + oy)) (seg_points paths))"
  by (simp add: svg_transformed_points_def fin_points_def seg_points_def flip_paths_def
        map_concat comp_def segment_curve_def svg_x_Fin svg_y_Fin flip_line_def)

lemma seg_points_nonempty: "concat paths \<noteq> [] \<Longrightarrow> seg_points paths \<noteq> []"
  by (cases "concat paths") (simp_all add: seg_points_def)

lemma bbox_longest_side_affine:
  assumes "ps \<noteq> []" "0 \<le> s"
  shows "bbox_longest_side (map (\<lambda>p. (fst p * s + a, snd p * s + b)) ps)
           = s * bbox_longest_side ps"
proof -
  obtain x0 y0 x1 y1 where bb: "bbox ps = (x0, y0, x1, y1)" by (cases "bbox ps") auto
  have "max ((x1 - x0) * s) ((y1 - y0) * s) = s * max (x1 - x0) (y1 - y0)"
  proof (cases "x1 - x0 \<le> y1 - y0")
    case True
    then have "(x1 - x0) * s \<le> (y1 - y0) * s" using assms(2) by (rule mult_right_mono)
    with True show ?thesis by (simp add: max.absorb2 mult.commute)
  next
    case False
    then have "y1 - y0 \<le> x1 - x0" by simp
    then have "(y1 - y0) * s \<le> (x1 - x0) * s" using assms(2) by (rule mult_right_mono)
    with \<open>y1 - y0 \<le> x1 - x0\<close> show ?thesis by (simp add: max.absorb1 mult.commute)
  qed
  note mx = this
  have "bbox_longest_side (map (\<lambda>p. (fst p * s + a, snd p * s + b)) ps)
          = max ((x1 * s + a) - (x0 * s + a)) ((y1 * s + b) - (y0 * s + b))"
    by (simp add: bbox_longest_side_def bbox_affine_up[OF assms] bb)
  also have "\<dots> = max ((x1 - x0) * s) ((y1 - y0) * s)"
    by (simp add: algebra_simps)
  also have "\<dots> = s * max (x1 - x0) (y1 - y0)" by (rule mx)
  also have "\<dots> = s * bbox_longest_side ps"
    by (simp add: bbox_longest_side_def bb)
  finally show ?thesis .
qed

lemma bbox_longest_side_flip:
  assumes "ps \<noteq> []"
  shows "bbox_longest_side (map (\<lambda>p. (fst p, h - snd p)) ps) = bbox_longest_side ps"
proof -
  obtain x0 y0 x1 y1 where bb: "bbox ps = (x0, y0, x1, y1)" by (cases "bbox ps") auto
  show ?thesis
    by (simp add: bbox_longest_side_def bbox_flip[OF assms] bb)
qed

lemma bbox_longest_side_svg:
  assumes "ps \<noteq> []" "0 \<le> s"
  shows "bbox_longest_side (map (\<lambda>p. ((fst p - mx) * s + ox, (h - snd p) * s + oy)) ps)
           = s * bbox_longest_side ps"
proof -
  have eq: "map (\<lambda>p. ((fst p - mx) * s + ox, (h - snd p) * s + oy)) ps
          = map (\<lambda>p. (fst p * s + (ox - mx * s), snd p * s + oy))
              (map (\<lambda>p. (fst p, h - snd p)) ps)"
    by (simp add: algebra_simps)
  have ne: "map (\<lambda>p. (fst p, h - snd p)) ps \<noteq> []" using assms(1) by simp
  show ?thesis
    unfolding eq
    by (simp only: bbox_longest_side_affine[OF ne assms(2)] bbox_longest_side_flip[OF assms(1)])
qed

lemma image_scale_factor_Some:
  "0 < max (fst shape) (max (fst (snd shape)) (snd (snd shape))) \<Longrightarrow>
   image_scale_factor shape (Some t) =
     Inr (if t = 0 then 1 else t / real (max (fst shape) (max (fst (snd shape)) (snd (snd shape)))))"
  by (auto simp add: image_scale_factor_def Let_def)

lemma contour_xy_map:
  "map (contour_xy s ox oy) ps = map (\<lambda>p. (fst p * s + ox, snd p * s + oy)) ps"
  by (simp add: contour_xy_def)

text \<open>
  Claim C1 as stated, at the raster converter: an image of 10 by 10 pixels whose only
  contour is the square from \<open>(2, 2)\<close> to \<open>(7, 7)\<close>, and the target 20. The longest side of
  the bounding box of the curves is 5, the scale is 2 and not \<open>20 / 5\<close>, and the longest
  side of the transformed bounding box is 10 and not 20.
\<close>

theorem C1_counterexample:
  "image_scale_factor (10, 10, 3) (Some 20) = Inr 2
   \<and> bbox_longest_side [(2, 2), (2, 7), (7, 7), (7, 2)] = 5
   \<and> (2 :: real) \<noteq> 20 / 5
   \<and> bbox_longest_side (map (contour_xy 2 0 0) [(2, 2), (2, 7), (7, 7), (7, 2)]) = 10
   \<and> (10 :: real) \<noteq> 20"
  by (simp add: image_scale_factor_def bbox_longest_side_def bbox_def contour_xy_def)

text \<open>
  Claim C1 as amended. The vector converter: for a scene with at least one segment,
  a bounding box of longest side \<open>L > 0\<close> and a target \<open>T > 0\<close>, the scale is \<open>T / L\<close>, and 1
  when no target is given; all transformed coordinates are finite and the longest
  side of their bounding box is \<open>T\<close>. The raster converter: the scale is \<open>T\<close> divided by
  the largest entry of the shape of the image, whatever the contours, and 1 when no
  target is given; the longest side of the transformed bounding box is the scale
  times that of the contours.
\<close>

theorem C1_scale_factor:
  assumes "svg_height_of float_of svg_attributes = Inr h"
    and "concat paths \<noteq> []"
    and "0 < bbox_longest_side (seg_points paths)"
    and "0 < t"
    and "0 < max (fst shape) (max (fst (snd shape)) (snd (snd shape)))"
    and "concat contours \<noteq> []"
  shows "calculate_scaling_factor_and_transform float_of paths svg_attributes (Some t) =
           (flip_paths h paths,
            Inr (Fin (t / bbox_longest_side (seg_points paths)),
                 Fin (fst (bbox (seg_points paths))), h))
         \<and> calculate_scaling_factor_and_transform float_of paths svg_attributes None =
           (flip_paths h paths, Inr (Fin 1, Fin (fst (bbox (seg_points paths))), h))
         \<and> (\<exists>q. svg_transformed_points
                   (Fin (t / bbox_longest_side (seg_points paths)))
                   (Fin (fst (bbox (seg_points paths))))
                   (fst (svg_offsets center_offset
                           (Fin (t / bbox_longest_side (seg_points paths)))
                           (Fin (fst (bbox (seg_points paths)))) h))
                   (snd (svg_offsets center_offset
                           (Fin (t / bbox_longest_side (seg_points paths)))
                           (Fin (fst (bbox (seg_points paths)))) h))
                   (flip_paths h paths) = fin_points q
                \<and> bbox_longest_side q = t)
         \<and> image_scale_factor shape (Some t) =
             Inr (t / real (max (fst shape) (max (fst (snd shape)) (snd (snd shape)))))
         \<and> image_scale_factor shape None = Inr 1
         \<and> bbox_longest_side
               (map (contour_xy
                       (t / real (max (fst shape) (max (fst (snd shape)) (snd (snd shape)))))
                       ox oy) (concat contours))
             = t / real (max (fst shape) (max (fst (snd shape)) (snd (snd shape))))
                 * bbox_longest_side (concat contours)"
proof -
  let ?L = "bbox_longest_side (seg_points paths)"
  let ?m = "real (max (fst shape) (max (fst (snd shape)) (snd (snd shape))))"
  have c1: "calculate_scaling_factor_and_transform float_of paths svg_attributes (Some t) =
           (flip_paths h paths, Inr (Fin (t / ?L), Fin (fst (bbox (seg_points paths))), h))"
    using assms(3) by (simp add: calculate_nonempty[OF assms(1,2)])
  have c2: "calculate_scaling_factor_and_transform float_of paths svg_attributes None =
           (flip_paths h paths, Inr (Fin 1, Fin (fst (bbox (seg_points paths))), h))"
    by (simp add: calculate_nonempty[OF assms(1,2)])
  have s0: "0 \<le> t / ?L" using assms(3,4) by simp
  have c3: "\<exists>q. svg_transformed_points (Fin (t / ?L)) (Fin (fst (bbox (seg_points paths))))
                   (fst (svg_offsets center_offset (Fin (t / ?L))
                           (Fin (fst (bbox (seg_points paths)))) h))
                   (snd (svg_offsets center_offset (Fin (t / ?L))
                           (Fin (fst (bbox (seg_points paths)))) h))
                   (flip_paths h paths) = fin_points q
                \<and> bbox_longest_side q = t"
  proof -
    obtain ox' oy' where off: "svg_offsets center_offset (Fin (t / ?L))
                           (Fin (fst (bbox (seg_points paths)))) h = (Fin ox', Fin oy')"
      using svg_offsets_Fin by blast
    let ?q = "map (\<lambda>p. ((fst p - fst (bbox (seg_points paths))) * (t / ?L) + ox',
                          (h - snd p) * (t / ?L) + oy')) (seg_points paths)"
    have "bbox_longest_side ?q = t / ?L * ?L"
      by (rule bbox_longest_side_svg[OF seg_points_nonempty[OF assms(2)] s0])
    then have "bbox_longest_side ?q = t" using assms(3) by simp
    then show ?thesis
      unfolding off fst_conv snd_conv svg_transformed_points_Fin by blast
  qed
  have c4: "image_scale_factor shape (Some t) = Inr (t / ?m)"
    using assms(4) by (simp add: image_scale_factor_Some[OF assms(5)])
  have c5: "image_scale_factor shape None = Inr 1"
    by (simp add: image_scale_factor_def)
  have m0: "0 \<le> t / ?m" using assms(4) by simp
  have c6: "bbox_longest_side (map (contour_xy (t / ?m) ox oy) (concat contours))
             = t / ?m * bbox_longest_side (concat contours)"
    unfolding contour_xy_map by (rule bbox_longest_side_affine[OF assms(6) m0])
  from c1 c2 c3 c4 c5 c6 show ?thesis by (intro conjI)
qed

theorem C1_scale_factor_witness:
  "svg_height_of float_of_digits
     [''viewBox'' \<mapsto> ''0 0 10 10''] = Inr 10
   \<and> concat [[\<lparr>seg_start = Complex 0 0, seg_end = Complex 10 0\<rparr>,
               \<lparr>seg_start = Complex 10 0, seg_end = Complex 10 5\<rparr>]] \<noteq> []
   \<and> 0 < bbox_longest_side (seg_points
             [[\<lparr>seg_start = Complex 0 0, seg_end = Complex 10 0\<rparr>,
               \<lparr>seg_start = Complex 10 0, seg_end = Complex 10 5\<rparr>]])
   \<and> (0 :: real) < 20
   \<and> (0 :: nat) < max (fst (10, 10, 3)) (max (fst (snd (10, 10, 3))) (snd (snd (10, 10, 3))))
   \<and> concat [[(2, 2), (7, 7 :: real)]] \<noteq> []
   \<and> calculate_scaling_factor_and_transform
        float_of_digits
        [[\<lparr>seg_start = Complex 0 0, seg_end = Complex 10 0\<rparr>,
          \<lparr>seg_start = Complex 10 0, seg_end = Complex 10 5\<rparr>]]
        [''viewBox'' \<mapsto> ''0 0 10 10''] (Some 20)
       = ([[\<lparr>seg_start = Complex 0 10, seg_end = Complex 10 10\<rparr>,
            \<lparr>seg_start = Complex 10 10, seg_end = Complex 10 5\<rparr>]],
          Inr (Fin 2, Fin 0, 10))
   \<and> image_scale_factor (10, 10, 3) (Some 20) = Inr 2"
proof -
  let ?f = "float_of_digits"
  let ?paths = "[[\<lparr>seg_start = Complex 0 0, seg_end = Complex 10 0\<rparr>,
                  \<lparr>seg_start = Complex 10 0, seg_end = Complex 10 5\<rparr>]]"
  have h: "svg_height_of ?f [''viewBox'' \<mapsto> ''0 0 10 10''] = Inr 10"
    by (simp add: svg_height_of_def split_ws_def is_space_def)
  have ne: "concat ?paths \<noteq> []" by simp
  have bb: "bbox (seg_points ?paths) = (0, 0, 10, 5)"
    by (simp add: bbox_def seg_points_def)
  have L: "bbox_longest_side (seg_points ?paths) = 10"
    by (simp add: bbox_longest_side_def bb)
  have L0: "0 < bbox_longest_side (seg_points ?paths)" by (simp add: L)
  have t: "(0 :: real) < 20" by simp
  have m: "(0 :: nat) < max (fst (10, 10, 3)) (max (fst (snd (10, 10, 3))) (snd (snd (10, 10, 3))))"
    by simp
  have c: "concat [[(2, 2), (7, 7 :: real)]] \<noteq> []" by simp
  note inst = C1_scale_factor[OF h ne L0 t m c]
  from inst have "calculate_scaling_factor_and_transform ?f ?paths
                   [''viewBox'' \<mapsto> ''0 0 10 10''] (Some 20)
       = (flip_paths 10 ?paths,
          Inr (Fin (20 / bbox_longest_side (seg_points ?paths)),
               Fin (fst (bbox (seg_points ?paths))), 10))"
    by (rule conjunct1)
  then have r: "calculate_scaling_factor_and_transform ?f ?paths
                   [''viewBox'' \<mapsto> ''0 0 10 10''] (Some 20)
       = ([[\<lparr>seg_start = Complex 0 10, seg_end = Complex 10 10\<rparr>,
            \<lparr>seg_start = Complex 10 10, seg_end = Complex 10 5\<rparr>]],
          Inr (Fin 2, Fin 0, 10))"
    by (simp add: L bb flip_paths_def flip_line_def)
  from inst have "image_scale_factor (10, 10, 3) (Some 20)
                   = Inr (20 / real (max (fst (10 :: nat, 10 :: nat, 3 :: nat))
                            (max (fst (snd (10 :: nat, 10 :: nat, 3 :: nat)))
                               (snd (snd (10 :: nat, 10 :: nat, 3 :: nat))))))"
    by blast
  then have i: "image_scale_factor (10, 10, 3) (Some 20) = Inr 2" by simp
  from h ne L0 t m c r i show ?thesis by (intro conjI)
qed

section \<open>Offset\<close>

text \<open>
  Claim C2 at a document with the view box \<open>0 0 20 10\<close> whose one segment goes from
  \<open>(0, 0)\<close> to \<open>(20, 10)\<close>, with the placement \<open>(10, 5)\<close> and no target size. The converter
  takes \<open>(5, 5)\<close> for the centre of the scaled bounding box, the height of the document
  standing for its width, so the offset is \<open>(5, 0)\<close>; the segment is written from
  \<open>(5, 10)\<close> to \<open>(25, 0)\<close>, and the centre of the transformed bounding box is \<open>(15, 5)\<close>, not
  the placement.
\<close>

theorem C2_vector_centre_misses:
  "calculate_scaling_factor_and_transform float_of_digits
     [[\<lparr>seg_start = Complex 0 0, seg_end = Complex 20 10\<rparr>]]
     [''viewBox'' \<mapsto> ''0 0 20 10''] None
     = ([[\<lparr>seg_start = Complex 0 10, seg_end = Complex 20 0\<rparr>]], Inr (Fin 1, Fin 0, 10))
   \<and> svg_center (Fin 1) (Fin 0) 10 = (Fin 5, Fin 5)
   \<and> svg_offsets (Some (10, 5)) (Fin 1) (Fin 0) 10 = (Fin 5, Fin 0)
   \<and> svg_transformed_points (Fin 1) (Fin 0) (Fin 5) (Fin 0)
        [[\<lparr>seg_start = Complex 0 10, seg_end = Complex 20 0\<rparr>]]
       = fin_points [(5, 10), (25, 0)]
   \<and> bbox_center [(5, 10), (25, 0)] = (15, 5)
   \<and> (15 :: real, 5 :: real) \<noteq> (10, 5)
   \<and> svg_to_gcode float_of_digits
        [[\<lparr>seg_start = Complex 0 0, seg_end = Complex 20 10\<rparr>]]
        [''viewBox'' \<mapsto> ''0 0 20 10''] 800 500 None (Some (10, 5))
       = Inr ''G21 ; Set units to millimeters\<newline>G90 ; Absolute positioning\<newline>M5 ; Start with laser off\<newline>G0 X5.000 Y10.000\<newline>M3 S800\<newline>G1 X25.000 Y0.000 F500\<newline>M5\<newline>G0 X0 Y0\<newline>''"
proof -
  let ?paths = "[[\<lparr>seg_start = Complex 0 0, seg_end = Complex 20 10\<rparr>]]"
  let ?paths' = "[[\<lparr>seg_start = Complex 0 10, seg_end = Complex 20 0\<rparr>]]"
  have h: "svg_height_of float_of_digits [''viewBox'' \<mapsto> ''0 0 20 10''] = Inr 10"
    by (simp add: svg_height_of_def split_ws_def is_space_def)
  have bb: "bbox (seg_points ?paths) = (0, 0, 20, 10)"
    by (simp add: bbox_def seg_points_def)
  have c: "calculate_scaling_factor_and_transform float_of_digits ?paths
             [''viewBox'' \<mapsto> ''0 0 20 10''] None
           = (?paths', Inr (Fin 1, Fin 0, 10))"
    using calculate_nonempty[OF h, of ?paths None]
    by (simp add: bb flip_paths_def flip_line_def)
  have ce: "svg_center (Fin 1) (Fin 0) 10 = (Fin 5, Fin 5)"
    by (simp add: svg_center_def pf_sub_def)
  have off: "svg_offsets (Some (10, 5)) (Fin 1) (Fin 0) 10 = (Fin 5, Fin 0)"
    by (simp add: svg_offsets_Fin)
  have tp: "svg_transformed_points (Fin 1) (Fin 0) (Fin 5) (Fin 0) ?paths'
              = fin_points [(5, 10), (25, 0)]"
    by (simp add: svg_transformed_points_def segment_curve_def svg_x_Fin svg_y_Fin
          fin_points_def)
  have bc: "bbox_center [(5, 10), (25, 0)] = (15, 5)"
    by (simp add: bbox_center_def bbox_def)
  have out: "svg_to_gcode float_of_digits ?paths [''viewBox'' \<mapsto> ''0 0 20 10''] 800 500 None
               (Some (10, 5))
       = Inr ''G21 ; Set units to millimeters\<newline>G90 ; Absolute positioning\<newline>M5 ; Start with laser off\<newline>G0 X5.000 Y10.000\<newline>M3 S800\<newline>G1 X25.000 Y0.000 F500\<newline>M5\<newline>G0 X0 Y0\<newline>''"
    unfolding svg_to_gcode_emit c
    by (simp add: off vector_header_def emit_def segment_curve_def svg_x_Fin
          svg_y_Fin fmt3f_def eol_def fmt3_def round_half_even_def pad3_def digit_char_def
          show_int_def show_nat.simps)
  from c ce off tp bc out show ?thesis by simp
qed

section \<open>Scenes without extent\<close>

lemma write_paths_no_segments:
  "concat paths = [] \<Longrightarrow> write_paths f paths s mx ox oy feed_rate pwr = f"
  by (simp only: write_paths_emit) (simp add: emit_def)

lemma svg_to_gcode_empty:
  assumes "svg_height_of float_of svg_attributes = Inr h"
  shows "svg_to_gcode float_of ([] :: 'a path list) svg_attributes pwr feed_rate target
           center_offset
           = Inr (vector_header @ eol ''G0 X0 Y0'')"
proof -
  have c: "calculate_scaling_factor_and_transform float_of ([] :: 'a path list)
             svg_attributes target
           = ([], Inr (case target of None \<Rightarrow> (Fin 1, PInf, h) | Some t \<Rightarrow> (Fin 0, PInf, h)))"
    using calculate_empty[OF assms, of "[]" target]
    by (simp add: flip_paths_def split: option.splits)
  show ?thesis
    unfolding svg_to_gcode_emit c
    by (simp add: emit_def split: option.splits prod.splits)
qed

text \<open>
  Claim C5 as stated: a scene whose bounding box has longest side zero, with a target
  size, makes normalization fail. The raster converter, given an image of 10 by 10
  pixels whose only contour is the single point \<open>(3, 4)\<close> and the target 20, returns
  with the scale 2 and writes the file.
\<close>

theorem C5_counterexample:
  "bbox_longest_side [(3, 4)] = 0
   \<and> image_scale_factor (10, 10, 3) (Some 20) = Inr 2
   \<and> image_to_gcode (10, 10, 3) [[(3, 4)]] 800 500 (Some 20) None =
       Inr ''G21 ; Set units to millimeters\<newline>G90 ; Absolute positioning\<newline>M5 ; Ensure the laser is off to start\<newline>G0 X6.000 Y8.000\<newline>M3 S800\<newline>M5 ; Turn off the laser\<newline>G0 X0 Y0\<newline>''"
  by (simp add: bbox_longest_side_def bbox_def image_to_gcode_def image_scale_factor_def
        image_offsets_def generate_gcode_def contour_xy_def eol_def fmt3_def
        round_half_even_def pad3_def digit_char_def show_int_def show_nat.simps)

text \<open>
  Claim C5 as amended. In the vector converter a scene with at least one segment whose
  bounding box has longest side zero, with a target size, makes the division of the
  target by the longest side raise \<^verbatim>\<open>ZeroDivisionError\<close> (after the flip), and no file is
  written. For a vector scene without segments the longest side is computed as
  \<open>-inf\<close>, the scale is 0 and the file holds the header and the final move. The raster
  converter does not look at the contours when it computes the scale, and returns
  whatever they are.
\<close>

theorem C5_degenerate_scene:
  assumes "svg_height_of float_of svg_attributes = Inr h"
    and "concat paths \<noteq> []"
    and "bbox_longest_side (seg_points paths) = 0"
    and "0 < max (fst shape) (max (fst (snd shape)) (snd (snd shape)))"
  shows "calculate_scaling_factor_and_transform float_of paths svg_attributes (Some t)
           = (flip_paths h paths, Inl ZeroDivisionError)
         \<and> svg_to_gcode float_of paths svg_attributes pwr feed_rate (Some t) center_offset
             = Inl ZeroDivisionError
         \<and> calculate_scaling_factor_and_transform float_of
               ([] :: 'a path list) svg_attributes (Some t)
             = ([], Inr (Fin 0, PInf, h))
         \<and> svg_to_gcode float_of ([] :: 'a path list) svg_attributes pwr feed_rate (Some t)
               center_offset
             = Inr (vector_header @ eol ''G0 X0 Y0'')
         \<and> image_to_gcode shape contours pwr feed_rate (Some t) placement =
             Inr (generate_gcode contours pwr feed_rate
                    (if t = 0 then 1
                     else t / real (max (fst shape) (max (fst (snd shape)) (snd (snd shape)))))
                    (fst (image_offsets placement)) (snd (image_offsets placement)))"
proof -
  have a: "calculate_scaling_factor_and_transform float_of paths svg_attributes (Some t)
           = (flip_paths h paths, Inl ZeroDivisionError)"
    by (simp add: calculate_nonempty[OF assms(1,2)] assms(3))
  have b: "svg_to_gcode float_of paths svg_attributes pwr feed_rate (Some t) center_offset
             = Inl ZeroDivisionError"
    by (simp add: svg_to_gcode_def a)
  have c: "calculate_scaling_factor_and_transform float_of
               ([] :: 'a path list) svg_attributes (Some t)
             = ([], Inr (Fin 0, PInf, h))"
    using calculate_empty[OF assms(1), of "[]" "Some t"] by (simp add: flip_paths_def)
  have d: "svg_to_gcode float_of ([] :: 'a path list) svg_attributes pwr feed_rate (Some t)
               center_offset
             = Inr (vector_header @ eol ''G0 X0 Y0'')"
    by (rule svg_to_gcode_empty[OF assms(1)])
  have e: "image_to_gcode shape contours pwr feed_rate (Some t) placement =
             Inr (generate_gcode contours pwr feed_rate
                    (if t = 0 then 1
                     else t / real (max (fst shape) (max (fst (snd shape)) (snd (snd shape)))))
                    (fst (image_offsets placement)) (snd (image_offsets placement)))"
    by (simp add: image_to_gcode_def image_scale_factor_Some[OF assms(4)] split: prod.splits)
  from a b c d e show ?thesis by (intro conjI)
qed

theorem C5_degenerate_scene_witness:
  "svg_height_of float_of_digits
     [''viewBox'' \<mapsto> ''0 0 10 10''] = Inr 10
   \<and> concat [[\<lparr>seg_start = Complex 3 4, seg_end = Complex 3 4\<rparr>]] \<noteq> []
   \<and> bbox_longest_side (seg_points [[\<lparr>seg_start = Complex 3 4, seg_end = Complex 3 4\<rparr>]]) = 0
   \<and> (0 :: nat) < max (fst (10, 10, 3)) (max (fst (snd (10, 10, 3))) (snd (snd (10, 10, 3))))
   \<and> svg_to_gcode float_of_digits
        [[\<lparr>seg_start = Complex 3 4, seg_end = Complex 3 4\<rparr>]]
        [''viewBox'' \<mapsto> ''0 0 10 10''] 800 500 (Some 20) None = Inl ZeroDivisionError"
proof -
  let ?f = "float_of_digits"
  let ?paths = "[[\<lparr>seg_start = Complex 3 4, seg_end = Complex 3 4\<rparr>]]"
  have h: "svg_height_of ?f [''viewBox'' \<mapsto> ''0 0 10 10''] = Inr 10"
    by (simp add: svg_height_of_def split_ws_def is_space_def)
  have ne: "concat ?paths \<noteq> []" by simp
  have L: "bbox_longest_side (seg_points ?paths) = 0"
    by (simp add: bbox_longest_side_def bbox_def seg_points_def)
  have m: "(0 :: nat) < max (fst (10, 10, 3)) (max (fst (snd (10, 10, 3))) (snd (snd (10, 10, 3))))"
    by simp
  have "svg_to_gcode ?f ?paths [''viewBox'' \<mapsto> ''0 0 10 10''] 800 500 (Some 20) None
          = Inl ZeroDivisionError"
    using C5_degenerate_scene[OF h ne L m] by blast
  with h ne L m show ?thesis by (intro conjI)
qed

section \<open>The written numbers and lines\<close>

lemma is_digit_digit_char: "d < 10 \<Longrightarrow> is_digit (digit_char d)"
proof -
  assume "d < 10"
  then have "d \<in> {0, 1, 2, 3, 4, 5, 6, 7, 8, 9}" by auto
  then show ?thesis by (auto simp: is_digit_def digit_char_def)
qed

lemma show_nat_digits: "show_nat n \<noteq> [] \<and> list_all is_digit (show_nat n)"
proof (induction n rule: show_nat.induct)
  case (1 n)
  show ?case
  proof (cases "n < 10")
    case True
    then show ?thesis by (subst (1 2) show_nat.simps) (simp add: is_digit_digit_char)
  next
    case False
    with 1 show ?thesis
      by (subst (1 2) show_nat.simps) (simp add: is_digit_digit_char)
  qed
qed

lemma pad3_digits: "length (pad3 m) = 3 \<and> (m < 1000 \<longrightarrow> list_all is_digit (pad3 m))"
  by (simp add: pad3_def is_digit_digit_char less_mult_imp_div_less)

lemma not_digit: "\<not> is_digit CHR ''.''" "\<not> is_digit CHR ''-''" "\<not> is_digit CHR 0x0A"
  by (simp_all add: is_digit_def)

lemma fixed3_shape:
  assumes "ip \<noteq> []" "list_all is_digit ip" "length d3 = 3" "list_all is_digit d3"
  shows "is_fixed3 (ip @ ''.'' @ d3)" "is_fixed3 (''-'' @ ip @ ''.'' @ d3)"
proof -
  have tw: "takeWhile is_digit (ip @ CHR ''.'' # d3) = ip"
    and dw: "dropWhile is_digit (ip @ CHR ''.'' # d3) = CHR ''.'' # d3"
    using assms(2) by (simp_all add: list_all_iff not_digit)
  have hd: "hd (ip @ CHR ''.'' # d3) \<noteq> CHR ''-''"
    using assms(1,2) by (cases ip) (auto simp: not_digit)
  show "is_fixed3 (ip @ ''.'' @ d3)"
    using assms hd by (simp add: is_fixed3_def tw dw)
  show "is_fixed3 (''-'' @ ip @ ''.'' @ d3)"
    using assms by (simp add: is_fixed3_def tw dw)
qed

lemma fmt3_shape:
  "\<exists>n. fmt3 x = (if x < 0 then ''-'' else []) @ show_nat (n div 1000) @ ''.'' @ pad3 (n mod 1000)"
  unfolding fmt3_def Let_def by (rule exI) (rule refl)

lemma is_fixed3_fmt3: "is_fixed3 (fmt3 x)"
proof -
  obtain n where f: "fmt3 x = (if x < 0 then ''-'' else []) @ show_nat (n div 1000) @ ''.''
                        @ pad3 (n mod 1000)"
    using fmt3_shape by blast
  have p: "length (pad3 (n mod 1000)) = 3" "list_all is_digit (pad3 (n mod 1000))"
    using pad3_digits[of "n mod 1000"] by simp_all
  have s: "show_nat (n div 1000) \<noteq> []" "list_all is_digit (show_nat (n div 1000))"
    using show_nat_digits by simp_all
  show ?thesis
    unfolding f using fixed3_shape[OF s p] by (cases "x < 0") simp_all
qed

lemma no_newline_digits: "list_all is_digit w \<Longrightarrow> CHR 0x0A \<notin> set w"
  by (auto simp: list_all_iff not_digit)

lemma no_newline_show_int: "CHR 0x0A \<notin> set (show_int i)"
  using show_nat_digits by (simp add: show_int_def no_newline_digits)

lemma no_newline_fmt3: "CHR 0x0A \<notin> set (fmt3 x)"
proof -
  obtain n where f: "fmt3 x = (if x < 0 then ''-'' else []) @ show_nat (n div 1000) @ ''.''
                        @ pad3 (n mod 1000)"
    using fmt3_shape by blast
  have "list_all is_digit (pad3 (n mod 1000))"
    using pad3_digits[of "n mod 1000"] by simp
  moreover have "list_all is_digit (show_nat (n div 1000))"
    using show_nat_digits by simp
  ultimately show ?thesis
    unfolding f by (auto dest: no_newline_digits)
qed

lemma no_newline_fmt3f: "CHR 0x0A \<notin> set (fmt3f v)"
  by (cases v) (simp_all add: fmt3f_def no_newline_fmt3)

lemma one_line_eol: "CHR 0x0A \<notin> set w \<Longrightarrow> one_line (eol w)"
  by (simp add: one_line_def eol_def)

lemma one_line_raster_text: "one_line (raster_text i)"
  by (cases i) (simp_all add: one_line_eol no_newline_fmt3 no_newline_show_int)

lemma one_line_vector_text: "one_line (vector_text i)"
  by (cases i) (simp_all add: one_line_eol no_newline_fmt3f no_newline_show_int)

lemma concat_flip_paths_empty: "concat paths = [] \<Longrightarrow> concat (flip_paths h paths) = []"
  by (simp add: flip_paths_def)

lemma svg_points_finite:
  assumes "calculate_scaling_factor_and_transform float_of paths svg_attributes target
             = (paths', Inr (sf, mx, h))"
  shows "\<exists>q. svg_transformed_points sf mx
               (fst (svg_offsets center_offset sf mx h))
               (snd (svg_offsets center_offset sf mx h)) paths' = fin_points q"
proof -
  obtain h0 where h0: "svg_height_of float_of svg_attributes = Inr h0"
    using assms calculate_no_height[of float_of svg_attributes _ paths target]
    by (cases "svg_height_of float_of svg_attributes") auto
  show ?thesis
  proof (cases "concat paths = []")
    case True
    from calculate_empty[OF h0 True, of target] assms
    have "paths' = flip_paths h0 paths" by simp
    then have cp: "concat paths' = []" using True by (simp add: concat_flip_paths_empty)
    have "svg_transformed_points sf mx
               (fst (svg_offsets center_offset sf mx h))
               (snd (svg_offsets center_offset sf mx h)) paths' = fin_points []"
      unfolding svg_transformed_points_def fin_points_def cp by simp
    then show ?thesis by blast
  next
    case False
    from calculate_nonempty[OF h0 False, of target] assms
    obtain s m where p: "paths' = flip_paths h paths" and sf: "sf = Fin s" and mx: "mx = Fin m"
      by (auto split: option.splits if_splits)
    obtain ox oy where off: "svg_offsets center_offset (Fin s) (Fin m) h = (Fin ox, Fin oy)"
      using svg_offsets_Fin by blast
    show ?thesis
      unfolding p sf mx off fst_conv snd_conv svg_transformed_points_Fin by blast
  qed
qed

text \<open>
  Claim C8 as stated: every instruction is written as one line with all coordinates
  in three decimal digits, the final move to the origin as \<^verbatim>\<open>G0 X0.000 Y0.000\<close>. Both
  converters write the final move as the fixed text \<^verbatim>\<open>G0 X0 Y0\<close>, whose coordinates
  have no decimal digits.
\<close>

theorem C8_counterexample:
  "generate_gcode [] 1000 1000 1 0 0 =
     ''G21 ; Set units to millimeters\<newline>G90 ; Absolute positioning\<newline>M5 ; Ensure the laser is off to start\<newline>G0 X0 Y0\<newline>''
   \<and> svg_to_gcode float_of_digits
        ([] :: unit path list) [''viewBox'' \<mapsto> ''0 0 10 10''] 1000 1000 None None =
       Inr ''G21 ; Set units to millimeters\<newline>G90 ; Absolute positioning\<newline>M5 ; Start with laser off\<newline>G0 X0 Y0\<newline>''
   \<and> \<not> is_fixed3 ''0''
   \<and> ''G0 X0 Y0'' \<noteq> ''G0 X0.000 Y0.000''"
proof -
  have h: "svg_height_of float_of_digits
             [''viewBox'' \<mapsto> ''0 0 10 10''] = Inr 10"
    by (simp add: svg_height_of_def split_ws_def is_space_def)
  show ?thesis
    by (simp add: generate_gcode_def svg_to_gcode_empty[OF h] vector_header_def eol_def
          is_fixed3_def is_digit_def)
qed

text \<open>
  Claim C8 as amended. Every instruction of the emitted sequence is written as exactly
  one line, and the final move to the origin is the line \<^verbatim>\<open>G0 X0 Y0\<close>, without decimal
  digits. Every coordinate of a move to a point of the scene is written by the format
  \<^verbatim>\<open>.3f\<close>: a finite coordinate with exactly three decimal digits, a coordinate that is
  not finite as \<^verbatim>\<open>inf\<close>, \<^verbatim>\<open>-inf\<close> or \<^verbatim>\<open>nan\<close>. For the runs of the model, in which the
  coordinates of the scene, the height of the document, the target size and the
  placement are finite, all coordinates of a conversion that returns are finite.
\<close>

theorem C8_lines_and_decimals:
  assumes "list_all (\<lambda>c. c \<noteq> []) contours"
    and "calculate_scaling_factor_and_transform float_of paths svg_attributes target
           = (paths', Inr (sf, mx, h))"
  shows "generate_gcode contours pwr feed_rate s ox oy =
           raster_header
             @ concat (map raster_text
                 (emit (map (map (contour_xy s ox oy)) contours) pwr feed_rate))
             @ eol ''G0 X0 Y0''
         \<and> svg_to_gcode float_of paths svg_attributes pwr feed_rate target center_offset =
             Inr (vector_header
                    @ concat (map vector_text
                        (emit (map (segment_curve sf mx
                                      (fst (svg_offsets center_offset sf mx h))
                                      (snd (svg_offsets center_offset sf mx h)))
                                 (concat paths')) pwr feed_rate))
                    @ eol ''G0 X0 Y0'')
         \<and> (\<exists>q. svg_transformed_points sf mx
                    (fst (svg_offsets center_offset sf mx h))
                    (snd (svg_offsets center_offset sf mx h)) paths' = fin_points q)
         \<and> (\<forall>i. one_line (raster_text i))
         \<and> (\<forall>i. one_line (vector_text i))
         \<and> one_line (eol ''G0 X0 Y0'')
         \<and> (\<forall>x y f.
               raster_text (RapidMove x y) = eol (''G0 X'' @ fmt3 x @ '' Y'' @ fmt3 y)
             \<and> raster_text (LinearMove x y f) =
                 eol (''G1 X'' @ fmt3 x @ '' Y'' @ fmt3 y @ '' F'' @ show_int f)
             \<and> vector_text (RapidMove (Fin x) (Fin y)) =
                 eol (''G0 X'' @ fmt3 x @ '' Y'' @ fmt3 y)
             \<and> vector_text (LinearMove (Fin x) (Fin y) f) =
                 eol (''G1 X'' @ fmt3 x @ '' Y'' @ fmt3 y @ '' F'' @ show_int f))
         \<and> (\<forall>x. is_fixed3 (fmt3 x))
         \<and> vector_text (RapidMove NInf NaN) = eol ''G0 X-inf Ynan''
         \<and> vector_text (LinearMove PInf NaN 500) = eol ''G1 Xinf Ynan F500''
         \<and> \<not> is_fixed3 (fmt3f PInf) \<and> \<not> is_fixed3 (fmt3f NInf) \<and> \<not> is_fixed3 (fmt3f NaN)"
proof -
  have b: "svg_to_gcode float_of paths svg_attributes pwr feed_rate target center_offset =
             Inr (vector_header
                    @ concat (map vector_text
                        (emit (map (segment_curve sf mx
                                      (fst (svg_offsets center_offset sf mx h))
                                      (snd (svg_offsets center_offset sf mx h)))
                                 (concat paths')) pwr feed_rate))
                    @ eol ''G0 X0 Y0'')"
    unfolding svg_to_gcode_emit assms(2) by (simp add: case_prod_beta)
  have g: "one_line (eol ''G0 X0 Y0'')" by (simp add: one_line_eol)
  have t: "\<forall>x y f.
               raster_text (RapidMove x y) = eol (''G0 X'' @ fmt3 x @ '' Y'' @ fmt3 y)
             \<and> raster_text (LinearMove x y f) =
                 eol (''G1 X'' @ fmt3 x @ '' Y'' @ fmt3 y @ '' F'' @ show_int f)
             \<and> vector_text (RapidMove (Fin x) (Fin y)) =
                 eol (''G0 X'' @ fmt3 x @ '' Y'' @ fmt3 y)
             \<and> vector_text (LinearMove (Fin x) (Fin y) f) =
                 eol (''G1 X'' @ fmt3 x @ '' Y'' @ fmt3 y @ '' F'' @ show_int f)"
    by (simp add: fmt3f_def)
  have r1: "\<forall>i. one_line (raster_text i)" by (simp add: one_line_raster_text)
  have r2: "\<forall>i. one_line (vector_text i)" by (simp add: one_line_vector_text)
  have f3: "\<forall>x. is_fixed3 (fmt3 x)" by (simp add: is_fixed3_fmt3)
  have n1: "vector_text (RapidMove NInf NaN) = eol ''G0 X-inf Ynan''"
    by (simp add: fmt3f_def)
  have n2: "vector_text (LinearMove PInf NaN 500) = eol ''G1 Xinf Ynan F500''"
    by (simp add: fmt3f_def show_int_def show_nat.simps digit_char_def)
  have n3: "\<not> is_fixed3 (fmt3f PInf)" "\<not> is_fixed3 (fmt3f NInf)" "\<not> is_fixed3 (fmt3f NaN)"
    by (simp_all add: fmt3f_def is_fixed3_def is_digit_def)
  from generate_gcode_emit[OF assms(1)] b svg_points_finite[OF assms(2)] r1 r2 g t f3 n1 n2 n3
  show ?thesis by (intro conjI)
qed

theorem C8_lines_and_decimals_witness:
  "list_all (\<lambda>c. c \<noteq> []) [[(0, 0), (10, 0 :: real)]]
   \<and> calculate_scaling_factor_and_transform float_of_digits
        [[\<lparr>seg_start = Complex 0 0, seg_end = Complex 10 0\<rparr>]]
        [''viewBox'' \<mapsto> ''0 0 10 10''] (Some 20)
       = ([[\<lparr>seg_start = Complex 0 10, seg_end = Complex 10 10\<rparr>]], Inr (Fin 2, Fin 0, 10))
   \<and> svg_to_gcode float_of_digits
        [[\<lparr>seg_start = Complex 0 0, seg_end = Complex 10 0\<rparr>]]
        [''viewBox'' \<mapsto> ''0 0 10 10''] 800 500 (Some 20) None
       = Inr ''G21 ; Set units to millimeters\<newline>G90 ; Absolute positioning\<newline>M5 ; Start with laser off\<newline>G0 X-10.000 Y10.000\<newline>M3 S800\<newline>G1 X10.000 Y10.000 F500\<newline>M5\<newline>G0 X0 Y0\<newline>''"
proof -
  let ?f = "float_of_digits"
  let ?paths = "[[\<lparr>seg_start = Complex 0 0, seg_end = Complex 10 0\<rparr>]]"
  let ?paths' = "[[\<lparr>seg_start = Complex 0 10, seg_end = Complex 10 10\<rparr>]]"
  have ne: "list_all (\<lambda>c. c \<noteq> []) [[(0, 0), (10, 0 :: real)]]" by simp
  have h: "svg_height_of ?f [''viewBox'' \<mapsto> ''0 0 10 10''] = Inr 10"
    by (simp add: svg_height_of_def split_ws_def is_space_def)
  have bb: "bbox (seg_points ?paths) = (0, 0, 10, 0)"
    by (simp add: bbox_def seg_points_def)
  have c: "calculate_scaling_factor_and_transform ?f ?paths
             [''viewBox'' \<mapsto> ''0 0 10 10''] (Some 20)
           = (?paths', Inr (Fin 2, Fin 0, 10))"
    using calculate_nonempty[OF h, of ?paths "Some 20"]
    by (simp add: bbox_longest_side_def bb flip_paths_def flip_line_def)
  have "svg_to_gcode ?f ?paths [''viewBox'' \<mapsto> ''0 0 10 10''] 800 500 (Some 20) None =
          Inr (vector_header
                 @ concat (map vector_text
                     (emit (map (segment_curve (Fin 2) (Fin 0)
                                   (fst (svg_offsets None (Fin 2) (Fin 0) 10))
                                   (snd (svg_offsets None (Fin 2) (Fin 0) 10)))
                              (concat ?paths')) 800 500))
                 @ eol ''G0 X0 Y0'')"
    using C8_lines_and_decimals[OF ne c] by blast
  also have "\<dots> = Inr ''G21 ; Set units to millimeters\<newline>G90 ; Absolute positioning\<newline>M5 ; Start with laser off\<newline>G0 X-10.000 Y10.000\<newline>M3 S800\<newline>G1 X10.000 Y10.000 F500\<newline>M5\<newline>G0 X0 Y0\<newline>''"
    by (simp add: vector_header_def emit_def segment_curve_def svg_offsets_Fin svg_x_Fin
          svg_y_Fin fmt3f_def eol_def fmt3_def round_half_even_def pad3_def digit_char_def
          show_int_def show_nat.simps)
  finally show ?thesis using ne c by (intro conjI)
qed

end
